theory Spec2Isabelle
  imports Main
begin

section \<open>JavaScript values used by the adapter\<close>

text \<open>
  The adapter is TypeScript/JavaScript.  A property that may be missing (\<open>x?: T\<close>, or any
  property of a \<open>Partial\<close> object) is an \<open>option\<close>: \<open>None\<close> is \<open>undefined\<close>/\<open>null\<close>.
  A string used as a condition (\<open>if (s)\<close>, \<open>s ? a : b\<close>, \<open>s || d\<close>) counts as set only when
  it is defined and not the empty string; \<open>truthy_str\<close> returns the string in that case.
\<close>

definition truthy_str :: "string option \<Rightarrow> string option" where
  "truthy_str x = (case x of None \<Rightarrow> None | Some s \<Rightarrow> if s = [] then None else Some s)"

text \<open>\<open>x || d\<close> for a string-or-undefined \<open>x\<close>.\<close>

definition or_str :: "string option \<Rightarrow> string \<Rightarrow> string" where
  "or_str x d = (case truthy_str x of Some s \<Rightarrow> s | None \<Rightarrow> d)"

text \<open>Exceptions of the platform that the modelled functions can let escape.\<close>

datatype error = RangeError | TypeError | ReferenceError

section \<open>Data model of the calendar adapter (components/APIs/d.ts)\<close>

text \<open>
  Field names carry a prefix per interface (\<open>c_\<close>, \<open>t_\<close>, \<open>e_\<close>), because the interfaces
  share property names (\<open>id\<close>, \<open>name\<close>, \<open>priority\<close>, \<open>status\<close>, ...).  ISO date-time strings
  stay strings; a \<open>Date\<close> object is a value of an abstract type \<open>'d\<close>, produced and consumed
  only by the platform functions that the transformations receive as parameters.
\<close>

record Category =
  c_id :: string
  c_name :: string
  c_color_hex :: string

record BackendTask =
  t_id :: string
  t_name :: string
  t_description :: string
  t_category :: "Category option"
  t_tags :: "string list"
  t_deadline :: "string option"
  t_duration_minutes :: "int option"
  t_specific_time :: "string option"
  t_priority :: int
  t_urgency :: int
  t_status :: string
  t_completion_percentage :: int
  t_location :: string
  t_required_tools :: "string list"
  t_created_at :: string
  t_updated_at :: string
  t_completed_at :: "string option"

text \<open>
  \<open>CalendarEvent\<close>.  The write-back transformation takes a \<open>Partial<CalendarEvent>\<close>, so
  the three properties the interface requires (\<open>id\<close>, \<open>title\<close>, \<open>date\<close>) are optional here
  too; \<open>is_CalendarEvent\<close> says that they are set.
\<close>

record 'd CalendarEvent =
  e_id :: "string option"
  e_title :: "string option"
  e_description :: "string option"
  e_date :: "'d option"
  e_time :: "string option"
  e_deadline :: "'d option"
  e_duration :: "int option"
  e_priority :: "string option"
  e_status :: "string option"
  e_category :: "string option"
  e_tags :: "string list option"
  e_location :: "string option"
  e_color :: "string option"
  e_type :: "string option"
  e_completed :: "bool option"
  e_progress :: "int option"

definition is_CalendarEvent :: "('d, 'z) CalendarEvent_scheme \<Rightarrow> bool" where
  "is_CalendarEvent ev = (e_id ev \<noteq> None \<and> e_title ev \<noteq> None \<and> e_date ev \<noteq> None)"

text \<open>The value sets of the string-literal union types.\<close>

definition backend_statuses :: "string list" where
  "backend_statuses = [''pending'', ''in_progress'', ''completed'', ''cancelled'', ''on_hold'']"

definition display_statuses :: "string list" where
  "display_statuses = [''not_started'', ''in_progress'', ''completed'', ''cancelled'', ''on_hold'']"

definition display_priorities :: "string list" where
  "display_priorities = [''low'', ''medium'', ''high'', ''urgent'']"

section \<open>Backend task to calendar event\<close>

text \<open>The two lookup tables of \<open>transformBackendTaskToCalendarEvent\<close> (d.ts, lines 227-242).\<close>

definition priorityMap_display :: "(int \<times> string) list" where
  "priorityMap_display =
     [(1, ''urgent''), (2, ''high''), (3, ''medium''), (4, ''medium''), (5, ''low'')]"

definition statusMap_display :: "(string \<times> string) list" where
  "statusMap_display =
     [(''pending'', ''not_started''), (''in_progress'', ''in_progress''),
      (''completed'', ''completed''), (''cancelled'', ''cancelled''), (''on_hold'', ''on_hold'')]"

text \<open>
  \<open>transformBackendTaskToCalendarEvent\<close> (d.ts, lines 215-264).  \<open>newDate\<close> is
  \<open>new Date(string)\<close>; \<open>format_HHmm d\<close> is \<open>format(d, 'HH:mm')\<close>, which may throw.  The only
  property whose evaluation can throw is \<open>time\<close>.
\<close>

definition transformBackendTaskToCalendarEvent ::
  "(string \<Rightarrow> 'd) \<Rightarrow> ('d \<Rightarrow> error + string) \<Rightarrow> BackendTask \<Rightarrow> error + 'd CalendarEvent" where
  "transformBackendTaskToCalendarEvent newDate format_HHmm task =
     (let displayDate =
            (case truthy_str (t_specific_time task) of
               Some st \<Rightarrow> newDate st
             | None \<Rightarrow>
                 (case truthy_str (t_deadline task) of
                    Some dl \<Rightarrow> newDate dl
                  | None \<Rightarrow> newDate (t_created_at task)))
      in case (case truthy_str (t_specific_time task) of
                 Some st \<Rightarrow> map_sum id Some (format_HHmm (newDate st))
               | None \<Rightarrow> Inr None) of
           Inl err \<Rightarrow> Inl err
         | Inr time \<Rightarrow>
             Inr \<lparr> e_id = Some (t_id task),
                   e_title = Some (t_name task),
                   e_description = Some (t_description task),
                   e_date = Some displayDate,
                   e_time = time,
                   e_deadline = map_option newDate (truthy_str (t_deadline task)),
                   e_duration = t_duration_minutes task,
                   e_priority =
                     Some (or_str (map_of priorityMap_display (t_priority task)) ''medium''),
                   e_status =
                     Some (or_str (map_of statusMap_display (t_status task)) ''not_started''),
                   e_category = map_option c_name (t_category task),
                   e_tags = Some (t_tags task),
                   e_location = Some (t_location task),
                   e_color = Some (or_str (map_option c_color_hex (t_category task)) ''#3b82f6''),
                   e_type = Some ''task'',
                   e_completed = Some (t_status task = ''completed''),
                   e_progress = Some (t_completion_percentage task) \<rparr>)"

text \<open>
  The only import of d.ts is line 4, the three React hooks; the file declares no \<open>format\<close>
  either.  In the module as it stands the identifier \<open>format\<close> of line 249 is unbound, and
  evaluating the call \<open>format(new Date(task.specific_time), 'HH:mm')\<close> throws a
  \<open>ReferenceError\<close> before any argument is looked at.  \<open>format_unbound\<close> is that
  behaviour; \<open>transformBackendTaskToCalendarEvent newDate format_unbound\<close> is the function
  of the file as it stands.
\<close>

definition format_unbound :: "'d \<Rightarrow> error + string" where
  "format_unbound d = Inl ReferenceError"

text \<open>\<open>taskUtils.getPriorityColor\<close> (APIs/TaskAPI.js): \<open>colors[priority] || colors[3]\<close>.\<close>

definition priority_colors :: "(int \<times> string) list" where
  "priority_colors =
     [(1, ''#ef4444''), (2, ''#f97316''), (3, ''#eab308''), (4, ''#3b82f6''), (5, ''#6b7280'')]"

definition getPriorityColor :: "int \<Rightarrow> string" where
  "getPriorityColor priority = or_str (map_of priority_colors priority) ''#eab308''"

text \<open>
  \<open>transformTaskToEvent\<close> of the comprehensive calendar container (a second copy of the
  transformation, written against \<open>task: any\<close>).  \<open>newDateMs\<close> is \<open>new Date(number)\<close>,
  \<open>now\<close> the value of \<open>Date.now()\<close>, \<open>formatTime\<close> is \<open>taskUtils.formatTime\<close>
  (\<open>toLocaleTimeString\<close> of the parsed string).  The status is passed through unless it
  is \<open>'pending'\<close>.  On a \<open>BackendTask\<close>, whose tags are an array and whose completion
  percentage is a number, \<open>Array.isArray(task.tags) ? task.tags : []\<close> and
  \<open>task.completion_percentage || 0\<close> return the property itself.
\<close>

definition transformTaskToEvent ::
  "(string \<Rightarrow> 'd) \<Rightarrow> (int \<Rightarrow> 'd) \<Rightarrow> int \<Rightarrow> (string \<Rightarrow> string) \<Rightarrow> BackendTask \<Rightarrow> 'd CalendarEvent" where
  "transformTaskToEvent newDate newDateMs now formatTime task =
     (let displayDate =
            (case truthy_str (t_specific_time task) of
               Some st \<Rightarrow> newDate st
             | None \<Rightarrow>
                 (case truthy_str (t_deadline task) of
                    Some dl \<Rightarrow> newDate dl
                  | None \<Rightarrow>
                      (case truthy_str (Some (t_created_at task)) of
                         Some c \<Rightarrow> newDate c
                       | None \<Rightarrow> newDateMs now)))
      in \<lparr> e_id = Some (t_id task),
           e_title = Some (t_name task),
           e_description = Some (t_description task),
           e_date = Some displayDate,
           e_time = map_option formatTime (truthy_str (t_specific_time task)),
           e_deadline = map_option newDate (truthy_str (t_deadline task)),
           e_duration = t_duration_minutes task,
           e_priority = Some (or_str (map_of priorityMap_display (t_priority task)) ''medium''),
           e_status = Some (if t_status task = ''pending'' then ''not_started'' else t_status task),
           e_category = map_option c_name (t_category task),
           e_tags = Some (t_tags task),
           e_location = Some (t_location task),
           e_color = Some (getPriorityColor (t_priority task)),
           e_type = Some ''task'',
           e_completed = Some (t_status task = ''completed''),
           e_progress = Some (t_completion_percentage task) \<rparr>)"

text \<open>
  \<open>taskUtils.taskToCalendarEvent\<close> (APIs/TaskAPI.js): the third copy, which builds the small
  event of the calendar grid (\<open>id\<close>, \<open>title\<close>, \<open>date\<close>, \<open>time\<close>, \<open>color\<close>) and reads only the
  deadline and the creation time.
\<close>

definition taskToCalendarEvent ::
  "(string \<Rightarrow> 'd) \<Rightarrow> (int \<Rightarrow> 'd) \<Rightarrow> int \<Rightarrow> (string \<Rightarrow> string) \<Rightarrow> BackendTask \<Rightarrow> 'd CalendarEvent" where
  "taskToCalendarEvent newDate newDateMs now formatTime task =
     \<lparr> e_id = Some (or_str (Some (t_id task)) ''''),
       e_title = Some (t_name task),
       e_description = None,
       e_date = Some (case truthy_str (t_deadline task) of
                        Some dl \<Rightarrow> newDate dl
                      | None \<Rightarrow>
                          (case truthy_str (Some (t_created_at task)) of
                             Some c \<Rightarrow> newDate c
                           | None \<Rightarrow> newDateMs now)),
       e_time = map_option formatTime (truthy_str (t_deadline task)),
       e_deadline = None,
       e_duration = None,
       e_priority = None,
       e_status = None,
       e_category = None,
       e_tags = None,
       e_location = None,
       e_color = Some (getPriorityColor (t_priority task)),
       e_type = None,
       e_completed = None,
       e_progress = None \<rparr>"

section \<open>\<open>parseInt\<close> and \<open>String.prototype.split\<close>\<close>

text \<open>
  \<open>parseInt(s)\<close> with no radix: leading white space is skipped, an optional sign is read,
  a \<open>0x\<close>/\<open>0X\<close> prefix selects radix 16, and the longest prefix of digits is the value;
  with no digit the result is \<open>NaN\<close>, which is \<open>None\<close> here.  Strings are byte strings, so
  only the ASCII white space characters are skipped; numbers are unbounded integers (the
  code's numbers are far below \<open>2^53\<close>, where doubles are exact).
\<close>

definition is_space :: "char \<Rightarrow> bool" where
  "is_space c = (c \<in> set [CHR '' '', CHR 0x09, CHR 0x0A, CHR 0x0B, CHR 0x0C, CHR 0x0D])"

definition digit_value :: "int \<Rightarrow> char \<Rightarrow> int option" where
  "digit_value radix c =
     (let n = (of_char c :: int);
          v = (if 48 \<le> n \<and> n \<le> 57 then Some (n - 48)
               else if 97 \<le> n \<and> n \<le> 122 then Some (n - 87)
               else if 65 \<le> n \<and> n \<le> 90 then Some (n - 55)
               else None)
      in case v of None \<Rightarrow> None | Some d \<Rightarrow> if d < radix then Some d else None)"

fun parse_digits :: "int \<Rightarrow> string \<Rightarrow> int option \<Rightarrow> int option" where
  "parse_digits radix [] acc = acc"
| "parse_digits radix (c # cs) acc =
     (case digit_value radix c of
        None \<Rightarrow> acc
      | Some d \<Rightarrow>
          parse_digits radix cs (Some (radix * (case acc of None \<Rightarrow> 0 | Some a \<Rightarrow> a) + d)))"

definition parseInt :: "string \<Rightarrow> int option" where
  "parseInt s =
     (let s1 = dropWhile is_space s;
          sign = (case s1 of c # _ \<Rightarrow> if c = CHR ''-'' then - 1 else (1::int) | [] \<Rightarrow> 1);
          s2 = (case s1 of c # cs \<Rightarrow> if c = CHR ''-'' \<or> c = CHR ''+'' then cs else s1 | [] \<Rightarrow> s1);
          hex = (take 2 s2 = ''0x'' \<or> take 2 s2 = ''0X'')
      in map_option (\<lambda>v. sign * v)
           (if hex then parse_digits 16 (drop 2 s2) None else parse_digits 10 s2 None))"

text \<open>\<open>parseInt(undefined)\<close> is \<open>NaN\<close>.\<close>

definition parseInt_opt :: "string option \<Rightarrow> int option" where
  "parseInt_opt x = (case x of None \<Rightarrow> None | Some s \<Rightarrow> parseInt s)"

text \<open>
  \<open>const [hours, minutes] = time.split(':')\<close>: the first piece always exists, the second
  is \<open>undefined\<close> when the string has no colon.
\<close>

definition split_hours :: "string \<Rightarrow> string" where
  "split_hours time = takeWhile (\<lambda>c. c \<noteq> CHR '':'') time"

definition split_minutes :: "string \<Rightarrow> string option" where
  "split_minutes time =
     (case dropWhile (\<lambda>c. c \<noteq> CHR '':'') time of
        [] \<Rightarrow> None
      | _ # rest \<Rightarrow> Some (takeWhile (\<lambda>c. c \<noteq> CHR '':'') rest))"

section \<open>Calendar event to backend write payload\<close>

text \<open>
  The payload is a JavaScript object built by an object literal and property assignments,
  and sent as \<open>JSON.stringify(task)\<close>: a finite map from property names to values.
\<close>

datatype jsval = JStr string | JNum int | JList "string list" | JUndefined

type_synonym jsobject = "string \<rightharpoonup> jsval"

text \<open>A property is present in the payload when the object has it with a defined value.\<close>

definition present :: "jsobject \<Rightarrow> string \<Rightarrow> bool" where
  "present obj k = (case obj k of None \<Rightarrow> False | Some v \<Rightarrow> v \<noteq> JUndefined)"

text \<open>
  The two lookup tables of \<open>transformCalendarEventToBackendTask\<close> (d.ts, lines 268-282).
  The function declares \<open>statusMap\<close> and never reads it.
\<close>

definition priorityMap_backend :: "(string \<times> int) list" where
  "priorityMap_backend = [(''urgent'', 1), (''high'', 2), (''medium'', 3), (''low'', 5)]"

definition statusMap_backend :: "(string \<times> string) list" where
  "statusMap_backend =
     [(''not_started'', ''pending''), (''in_progress'', ''in_progress''),
      (''completed'', ''completed''), (''cancelled'', ''cancelled''), (''on_hold'', ''on_hold'')]"

text \<open>A number read from a table, or \<open>undefined\<close> when the key is not in it.\<close>

definition num_or_undefined :: "int option \<Rightarrow> jsval" where
  "num_or_undefined x = (case x of None \<Rightarrow> JUndefined | Some n \<Rightarrow> JNum n)"

text \<open>The object literal (d.ts, lines 284-291).\<close>

definition task_literal :: "('d, 'z) CalendarEvent_scheme \<Rightarrow> jsobject" where
  "task_literal event =
     [''name'' \<mapsto> JStr (or_str (e_title event) ''''),
      ''description'' \<mapsto> JStr (or_str (e_description event) ''''),
      ''tags'' \<mapsto> JList (case e_tags event of Some ts \<Rightarrow> ts | None \<Rightarrow> []),
      ''location'' \<mapsto> JStr (or_str (e_location event) ''''),
      ''priority'' \<mapsto>
         (case truthy_str (e_priority event) of
            Some p \<Rightarrow> num_or_undefined (map_of priorityMap_backend p)
          | None \<Rightarrow> JNum 3),
      ''urgency'' \<mapsto>
         (case truthy_str (e_priority event) of
            Some p \<Rightarrow> num_or_undefined (map_of priorityMap_backend p)
          | None \<Rightarrow> JNum 3)]"

text \<open>
  The timing block (d.ts, lines 294-309), entered when the event has a date.  \<open>setHours d h m\<close>
  is the date \<open>d\<close> after \<open>setHours(h, m)\<close>; \<open>toISOString\<close> throws a \<open>RangeError\<close> on an
  invalid date, so it returns a sum.
\<close>

definition set_specific_time ::
  "('d \<Rightarrow> int option \<Rightarrow> int option \<Rightarrow> 'd) \<Rightarrow> ('d \<Rightarrow> error + string) \<Rightarrow> 'd \<Rightarrow>
     ('d, 'z) CalendarEvent_scheme \<Rightarrow> jsobject \<Rightarrow> error + jsobject" where
  "set_specific_time setHours toISOString date event task =
     (case truthy_str (e_time event) of
        None \<Rightarrow> Inr task
      | Some time \<Rightarrow>
          (case toISOString
                  (setHours date (parseInt (split_hours time)) (parseInt_opt (split_minutes time))) of
             Inl err \<Rightarrow> Inl err
           | Inr isostr \<Rightarrow> Inr (task(''specific_time'' \<mapsto> JStr isostr))))"

definition set_deadline ::
  "('d \<Rightarrow> error + string) \<Rightarrow> 'd \<Rightarrow> ('d, 'z) CalendarEvent_scheme \<Rightarrow> jsobject \<Rightarrow> error + jsobject" where
  "set_deadline toISOString date event task =
     (case toISOString (case e_deadline event of Some dl \<Rightarrow> dl | None \<Rightarrow> date) of
        Inl err \<Rightarrow> Inl err
      | Inr isostr \<Rightarrow> Inr (task(''deadline'' \<mapsto> JStr isostr)))"

text \<open>\<open>if (event.duration) task.duration_minutes = event.duration\<close> (d.ts, lines 311-313).\<close>

definition set_duration :: "('d, 'z) CalendarEvent_scheme \<Rightarrow> jsobject \<Rightarrow> jsobject" where
  "set_duration event task =
     (case e_duration event of
        None \<Rightarrow> task
      | Some n \<Rightarrow> if n = 0 then task else task(''duration_minutes'' \<mapsto> JNum n))"

text \<open>\<open>transformCalendarEventToBackendTask\<close> (d.ts, lines 266-316).\<close>

definition transformCalendarEventToBackendTask ::
  "('d \<Rightarrow> int option \<Rightarrow> int option \<Rightarrow> 'd) \<Rightarrow> ('d \<Rightarrow> error + string) \<Rightarrow>
     ('d, 'z) CalendarEvent_scheme \<Rightarrow> error + jsobject" where
  "transformCalendarEventToBackendTask setHours toISOString event =
     (case e_date event of
        None \<Rightarrow> Inr (set_duration event (task_literal event))
      | Some date \<Rightarrow>
          (case set_specific_time setHours toISOString date event (task_literal event) of
             Inl err \<Rightarrow> Inl err
           | Inr task1 \<Rightarrow>
               (case set_deadline toISOString date event task1 of
                  Inl err \<Rightarrow> Inl err
                | Inr task2 \<Rightarrow> Inr (set_duration event task2))))"

text \<open>
  The other place that writes a task from a calendar event is \<open>ComprehensiveTaskDialog\<close>
  (components/CalendarContainer.tsx).  Opened on an event, it sets its \<open>status\<close> state to
  \<open>statusMap[editEvent.status || 'not_started'] || 'pending'\<close>, where \<open>statusMap\<close> is the
  same table once more, and the object it submits has \<open>status: status\<close>.
  \<open>dialog_status\<close> is that property for an event edited with the status field left as
  loaded.
\<close>

definition dialog_status :: "('d, 'z) CalendarEvent_scheme \<Rightarrow> string" where
  "dialog_status editEvent =
     or_str (map_of statusMap_backend (or_str (e_status editEvent) ''not_started'')) ''pending''"

section \<open>Browser and backend as seen by the authentication component\<close>

text \<open>
  \<open>localStorage\<close> is a map from keys to strings.  Every call that leaves the component is
  appended to a trace, so that the order of storage writes and network requests can be
  stated; the callbacks of the parent component (\<open>onAuthSuccess\<close>, \<open>onSignOut\<close>) are
  recorded there too.  The backend is a function from requests to responses;
  \<open>NetworkError\<close> is a rejected \<open>fetch\<close>, and a response carries \<open>ok\<close> and its JSON body
  (\<open>None\<close> when the body is not JSON, so that \<open>response.json()\<close> rejects).  The parameter
  \<open>now\<close> of the resolver functions is the value of \<open>Date.now()\<close>; a run reads the clock
  at most once.
\<close>

type_synonym storage = "string \<rightharpoonup> string"

datatype request =
    VerifyToken "string option"  \<comment> \<open>POST /auth/verify-token/ with the token of the body, if any\<close>
  | VerifySession                \<comment> \<open>POST /auth/verify-session/\<close>
  | Logout                       \<comment> \<open>POST /auth/logout/\<close>

record verify_body =
  user_id :: string
  email :: "string option"
  first_name :: "string option"
  last_name :: "string option"
  login_method :: string
  error_msg :: "string option"

datatype response = NetworkError | Response bool "verify_body option"

record User =
  u_id :: string
  u_email :: string
  u_name :: string
  u_firstName :: string
  u_lastName :: string
  u_avatar :: string
  u_loginMethod :: string
  u_sessionActive :: "bool option"
  u_tokenValid :: "bool option"

datatype effect =
    SetItem string string
  | RemoveItem string
  | Fetch request
  | ReplaceState
  | OnAuthSuccess User
  | OnSignOut

text \<open>
  The state of the \<open>GoogleAuth\<close> component together with the browser state it touches.
  \<open>s_url_token\<close> is \<open>new URLSearchParams(window.location.search).get('token')\<close>.  The
  first draft of the component has \<open>token\<close> and \<open>showDashboard\<close>, the second \<open>authMethod\<close>.
\<close>

record auth_state =
  s_storage :: storage
  s_url_token :: "string option"
  s_user :: "User option"
  s_loading :: bool
  s_error :: "string option"
  s_authMethod :: "string option"
  s_token :: "string option"
  s_showDashboard :: bool
  s_trace :: "effect list"

definition getItem :: "string \<Rightarrow> auth_state \<Rightarrow> string option" where
  "getItem k s = s_storage s k"

definition setItem :: "string \<Rightarrow> string \<Rightarrow> auth_state \<Rightarrow> auth_state" where
  "setItem k v s = s\<lparr> s_storage := (s_storage s)(k \<mapsto> v), s_trace := s_trace s @ [SetItem k v] \<rparr>"

definition removeItem :: "string \<Rightarrow> auth_state \<Rightarrow> auth_state" where
  "removeItem k s = s\<lparr> s_storage := (s_storage s)(k := None), s_trace := s_trace s @ [RemoveItem k] \<rparr>"

definition fetch :: "(request \<Rightarrow> response) \<Rightarrow> request \<Rightarrow> auth_state \<Rightarrow> response \<times> auth_state" where
  "fetch backend req s = (backend req, s\<lparr> s_trace := s_trace s @ [Fetch req] \<rparr>)"

text \<open>\<open>window.history.replaceState\<close> to the bare path: the query string is gone.\<close>

definition replaceState :: "auth_state \<Rightarrow> auth_state" where
  "replaceState s = s\<lparr> s_url_token := None, s_trace := s_trace s @ [ReplaceState] \<rparr>"

definition onAuthSuccess :: "User \<Rightarrow> auth_state \<Rightarrow> auth_state" where
  "onAuthSuccess u s = s\<lparr> s_trace := s_trace s @ [OnAuthSuccess u] \<rparr>"

text \<open>\<open>Number.prototype.toString\<close> on an integer: its decimal digits.\<close>

function show_digits :: "int \<Rightarrow> string" where
  "show_digits n =
     (if n < 10 then [char_of (48 + n)] else show_digits (n div 10) @ [char_of (48 + n mod 10)])"
  by pat_completeness auto
termination
  by (relation "measure nat") auto

declare show_digits.simps [simp del]

definition number_toString :: "int \<Rightarrow> string" where
  "number_toString i = (if i < 0 then CHR ''-'' # show_digits (- i) else show_digits i)"

text \<open>
  \<open>encodeURIComponent\<close> on a byte string: the unreserved characters stay, every other
  byte becomes \<open>%XX\<close>.
\<close>

definition hex_digit :: "nat \<Rightarrow> char" where
  "hex_digit n = (if n < 10 then char_of (48 + n) else char_of (55 + n))"

definition uri_unreserved :: "char \<Rightarrow> bool" where
  "uri_unreserved c =
     (let n = (of_char c :: nat)
      in (48 \<le> n \<and> n \<le> 57) \<or> (65 \<le> n \<and> n \<le> 90) \<or> (97 \<le> n \<and> n \<le> 122) \<or> c \<in> set ''-_.!~*'()'')"

definition encodeURIComponent :: "string \<Rightarrow> string" where
  "encodeURIComponent s =
     concat (map (\<lambda>c. if uri_unreserved c then [c]
                       else [CHR ''%'', hex_digit (of_char c div 16), hex_digit (of_char c mod 16)]) s)"

text \<open>\<open>email.split('@')[0]\<close>.\<close>

definition email_local_part :: "string \<Rightarrow> string" where
  "email_local_part em = takeWhile (\<lambda>c. c \<noteq> CHR ''@'') em"

definition avatar_url :: "string \<Rightarrow> string" where
  "avatar_url em =
     ''https://ui-avatars.com/api/?name='' @ encodeURIComponent (email_local_part em)
       @ ''&background=6366f1&color=fff&size=100''"

section \<open>Authentication resolver, second draft (\<open>initializeAuth\<close>)\<close>

definition TOKEN_KEY :: string where
  "TOKEN_KEY = ''deeptalk_token''"

definition TOKEN_TIMESTAMP_KEY :: string where
  "TOKEN_TIMESTAMP_KEY = ''deeptalk_token_timestamp''"

definition TOKEN_EXPIRY_DAYS :: int where
  "TOKEN_EXPIRY_DAYS = 7"

definition cleanupStoredTokens :: "auth_state \<Rightarrow> auth_state" where
  "cleanupStoredTokens s =
     removeItem ''gmail_token_timestamp''
       (removeItem ''gmail_token''
          (removeItem TOKEN_TIMESTAMP_KEY
             (removeItem TOKEN_KEY s)))"

text \<open>
  \<open>getValidStoredToken\<close>.  When the timestamp does not parse, \<open>tokenAge\<close> is \<open>NaN\<close>, the
  comparison \<open>tokenAge >= maxAge\<close> is false and the token is returned.
\<close>

definition getValidStoredToken :: "int \<Rightarrow> auth_state \<Rightarrow> string option \<times> auth_state" where
  "getValidStoredToken now s =
     (case (truthy_str (getItem TOKEN_KEY s), truthy_str (getItem TOKEN_TIMESTAMP_KEY s)) of
        (Some token, Some timestamp) \<Rightarrow>
          (case parseInt timestamp of
             None \<Rightarrow> (Some token, s)
           | Some t \<Rightarrow>
               if now - t \<ge> TOKEN_EXPIRY_DAYS * 24 * 60 * 60 * 1000
               then (None, cleanupStoredTokens s)
               else (Some token, s))
      | _ \<Rightarrow> (None, cleanupStoredTokens s))"

text \<open>\<open>createUserData\<close>: \<open>data.email.split\<close> throws a \<open>TypeError\<close> when the body has no email.\<close>

definition createUserData :: "verify_body \<Rightarrow> string \<Rightarrow> error + User" where
  "createUserData data loginMethod =
     (case email data of
        None \<Rightarrow> Inl TypeError
      | Some em \<Rightarrow>
          Inr \<lparr> u_id = user_id data,
                u_email = em,
                u_name = email_local_part em,
                u_firstName = or_str (first_name data) (email_local_part em),
                u_lastName = or_str (last_name data) '''',
                u_avatar = avatar_url em,
                u_loginMethod = loginMethod,
                u_sessionActive = Some (loginMethod = ''session''),
                u_tokenValid = Some (loginMethod = ''token'') \<rparr>)"

text \<open>
  \<open>verifyTokenAuth\<close> and \<open>verifySessionAuth\<close>: every exception inside (rejected fetch, body
  that is not JSON, missing email) is caught and gives \<open>false\<close>.
\<close>

definition verifyTokenAuth ::
  "(request \<Rightarrow> response) \<Rightarrow> string \<Rightarrow> auth_state \<Rightarrow> bool \<times> auth_state" where
  "verifyTokenAuth backend token s =
     (let (resp, s1) = fetch backend (VerifyToken (Some token)) s
      in case resp of
           NetworkError \<Rightarrow> (False, s1)
         | Response ok body \<Rightarrow>
             if ok then
               (case body of
                  None \<Rightarrow> (False, s1)
                | Some data \<Rightarrow>
                    (case createUserData data ''token'' of
                       Inl err \<Rightarrow> (False, s1)
                     | Inr userData \<Rightarrow>
                         (True, onAuthSuccess userData
                                  (s1\<lparr> s_user := Some userData,
                                       s_authMethod := Some ''token'',
                                       s_loading := False \<rparr>))))
             else (False, s1))"

definition verifySessionAuth ::
  "(request \<Rightarrow> response) \<Rightarrow> auth_state \<Rightarrow> bool \<times> auth_state" where
  "verifySessionAuth backend s =
     (let (resp, s1) = fetch backend VerifySession s
      in case resp of
           NetworkError \<Rightarrow> (False, s1)
         | Response ok body \<Rightarrow>
             if ok then
               (case body of
                  None \<Rightarrow> (False, s1)
                | Some data \<Rightarrow>
                    (case createUserData data ''session'' of
                       Inl err \<Rightarrow> (False, s1)
                     | Inr userData \<Rightarrow>
                         (True, onAuthSuccess userData
                                  (s1\<lparr> s_user := Some userData,
                                       s_authMethod := Some ''session'',
                                       s_loading := False \<rparr>))))
             else (False, s1))"

text \<open>
  \<open>processNewToken\<close>: on a failed verification the tokens are cleaned up, the thrown error
  is caught, and the handler cleans up once more before it sets the error message.
\<close>

definition processNewToken ::
  "(request \<Rightarrow> response) \<Rightarrow> int \<Rightarrow> string \<Rightarrow> auth_state \<Rightarrow> auth_state" where
  "processNewToken backend now token s =
     (let s1 = setItem TOKEN_KEY token s;
          s2 = setItem TOKEN_TIMESTAMP_KEY (number_toString now) s1;
          s3 = replaceState s2;
          (success, s4) = verifyTokenAuth backend token s3
      in if success then s4
         else (cleanupStoredTokens (cleanupStoredTokens s4))
                \<lparr> s_error := Some ''Failed to process authentication token. Please try again.'',
                  s_loading := False \<rparr>)"

text \<open>
  \<open>initializeAuth\<close>.  The three \<open>return\<close> statements inside the \<open>try\<close> skip the final
  \<open>setLoading(false)\<close>; nothing inside the \<open>try\<close> lets an exception escape.
\<close>

definition session_step :: "(request \<Rightarrow> response) \<Rightarrow> auth_state \<Rightarrow> auth_state" where
  "session_step backend s =
     (let (sessionValid, s1) = verifySessionAuth backend s
      in if sessionValid then s1 else s1\<lparr> s_loading := False \<rparr>)"

definition initializeAuth :: "(request \<Rightarrow> response) \<Rightarrow> int \<Rightarrow> auth_state \<Rightarrow> auth_state" where
  "initializeAuth backend now s0 =
     (let s = s0\<lparr> s_loading := True, s_error := None \<rparr>
      in case truthy_str (s_url_token s) of
           Some urlToken \<Rightarrow> processNewToken backend now urlToken s
         | None \<Rightarrow>
             (case getValidStoredToken now s of
                (Some storedToken, s1) \<Rightarrow>
                  (let (success, s2) = verifyTokenAuth backend storedToken s1
                   in if success then s2 else session_step backend s2)
              | (None, s1) \<Rightarrow> session_step backend s1))"

text \<open>\<open>handleSignOut\<close> of the second draft: a rejected logout request is caught and logged.\<close>

definition handleSignOut :: "(request \<Rightarrow> response) \<Rightarrow> auth_state \<Rightarrow> auth_state" where
  "handleSignOut backend s =
     (let (resp, s1) = fetch backend Logout (s\<lparr> s_loading := True \<rparr>);
          s2 = cleanupStoredTokens s1;
          s3 = s2\<lparr> s_user := None, s_authMethod := None, s_error := None, s_loading := False \<rparr>
      in s3\<lparr> s_trace := s_trace s3 @ [OnSignOut] \<rparr>)"

section \<open>Authentication resolver, first draft (\<open>checkExistingAuth\<close>)\<close>

definition cleanupAllTokens :: "auth_state \<Rightarrow> auth_state" where
  "cleanupAllTokens s =
     removeItem ''gmail_token_timestamp''
       (removeItem ''gmail_token''
          (removeItem ''deeptalk_token_timestamp''
             (removeItem ''deeptalk_token'' s)))"

text \<open>
  The user record of the first draft takes \<open>loginMethod\<close> from the response and sets one of
  the two flags.
\<close>

definition userData_v1 :: "verify_body \<Rightarrow> bool option \<Rightarrow> bool option \<Rightarrow> error + User" where
  "userData_v1 data sessionActive tokenValid =
     (case email data of
        None \<Rightarrow> Inl TypeError
      | Some em \<Rightarrow>
          Inr \<lparr> u_id = user_id data,
                u_email = em,
                u_name = email_local_part em,
                u_firstName = or_str (first_name data) (email_local_part em),
                u_lastName = or_str (last_name data) '''',
                u_avatar = avatar_url em,
                u_loginMethod = login_method data,
                u_sessionActive = sessionActive,
                u_tokenValid = tokenValid \<rparr>)"

text \<open>The \<open>catch\<close> block of \<open>verifyToken\<close>.\<close>

definition verifyToken_caught :: "auth_state \<Rightarrow> auth_state" where
  "verifyToken_caught s =
     s\<lparr> s_error := Some ''Network error during token verification'', s_loading := False \<rparr>"

definition verifyToken ::
  "(request \<Rightarrow> response) \<Rightarrow> string \<Rightarrow> auth_state \<Rightarrow> bool \<times> auth_state" where
  "verifyToken backend jwtToken s =
     (let (resp, s1) = fetch backend (VerifyToken (Some jwtToken)) s
      in case resp of
           NetworkError \<Rightarrow> (False, verifyToken_caught s1)
         | Response ok body \<Rightarrow>
             (case body of
                None \<Rightarrow> (False, verifyToken_caught s1)
              | Some data \<Rightarrow>
                  if ok then
                    (case userData_v1 data None (Some True) of
                       Inl err \<Rightarrow> (False, verifyToken_caught s1)
                     | Inr userData \<Rightarrow>
                         (True, onAuthSuccess userData
                                  (s1\<lparr> s_user := Some userData,
                                       s_showDashboard := True,
                                       s_loading := False,
                                       s_error := None \<rparr>)))
                  else
                    (False, s1\<lparr> s_error := Some (or_str (error_msg data) ''Token verification failed''),
                                s_loading := False \<rparr>)))"

text \<open>
  \<open>checkSessionAuth\<close> posts an empty body to the verify-token endpoint; every exception is
  caught and logged.
\<close>

definition checkSessionAuth ::
  "(request \<Rightarrow> response) \<Rightarrow> auth_state \<Rightarrow> bool \<times> auth_state" where
  "checkSessionAuth backend s =
     (let (resp, s1) = fetch backend (VerifyToken None) s
      in case resp of
           NetworkError \<Rightarrow> (False, s1)
         | Response ok body \<Rightarrow>
             if ok then
               (case body of
                  None \<Rightarrow> (False, s1)
                | Some data \<Rightarrow>
                    (case userData_v1 data (Some True) None of
                       Inl err \<Rightarrow> (False, s1)
                     | Inr userData \<Rightarrow>
                         (True, onAuthSuccess userData
                                  (s1\<lparr> s_user := Some userData, s_showDashboard := True \<rparr>))))
             else (False, s1))"

text \<open>\<open>a || b\<close> on two results of \<open>localStorage.getItem\<close>.\<close>

definition or_item :: "string option \<Rightarrow> string option \<Rightarrow> string option" where
  "or_item a b = (case truthy_str a of Some x \<Rightarrow> Some x | None \<Rightarrow> b)"

text \<open>The end of \<open>checkExistingAuth\<close>: the session check, then \<open>setLoading(false)\<close>.\<close>

definition session_check_v1 :: "(request \<Rightarrow> response) \<Rightarrow> auth_state \<Rightarrow> auth_state" where
  "session_check_v1 backend s =
     (let (valid, s1) = checkSessionAuth backend s in s1\<lparr> s_loading := False \<rparr>)"

text \<open>
  The stored-token part of \<open>checkExistingAuth\<close>.  With a timestamp that does not parse,
  \<open>tokenAge < sevenDays\<close> is false and the tokens are cleaned up.
\<close>

definition stored_token_check_v1 ::
  "(request \<Rightarrow> response) \<Rightarrow> int \<Rightarrow> auth_state \<Rightarrow> auth_state" where
  "stored_token_check_v1 backend now s =
     (case (truthy_str (or_item (getItem ''deeptalk_token'' s) (getItem ''gmail_token'' s)),
            truthy_str (or_item (getItem ''deeptalk_token_timestamp'' s)
                                (getItem ''gmail_token_timestamp'' s))) of
        (Some storedToken, Some tokenTimestamp) \<Rightarrow>
          if (case parseInt tokenTimestamp of
                None \<Rightarrow> False
              | Some t \<Rightarrow> now - t < 7 * 24 * 60 * 60 * 1000)
          then
            (let s1 = s\<lparr> s_token := Some storedToken \<rparr>;
                 s2 = (if truthy_str (getItem ''gmail_token'' s1) \<noteq> None
                       then removeItem ''gmail_token_timestamp''
                              (removeItem ''gmail_token''
                                 (setItem ''deeptalk_token_timestamp'' tokenTimestamp
                                    (setItem ''deeptalk_token'' storedToken s1)))
                       else s1);
                 (isValid, s3) = verifyToken backend storedToken s2
             in if isValid then s3
                else session_check_v1 backend ((cleanupAllTokens s3)\<lparr> s_token := None \<rparr>))
          else session_check_v1 backend ((cleanupAllTokens s)\<lparr> s_token := None \<rparr>)
      | _ \<Rightarrow> session_check_v1 backend s)"

definition checkExistingAuth :: "(request \<Rightarrow> response) \<Rightarrow> int \<Rightarrow> auth_state \<Rightarrow> auth_state" where
  "checkExistingAuth backend now s0 =
     (let s = s0\<lparr> s_loading := True, s_error := None \<rparr>
      in case truthy_str (s_url_token s) of
           Some urlToken \<Rightarrow>
             (let s1 = s\<lparr> s_token := Some urlToken \<rparr>;
                  s2 = setItem ''deeptalk_token'' urlToken s1;
                  s3 = setItem ''deeptalk_token_timestamp'' (number_toString now) s2;
                  s4 = removeItem ''gmail_token'' s3;
                  s5 = removeItem ''gmail_token_timestamp'' s4;
                  (isValid, s6) = verifyToken backend urlToken s5
              in if isValid then replaceState s6
                 else stored_token_check_v1 backend now (cleanupAllTokens s6))
         | None \<Rightarrow> stored_token_check_v1 backend now s)"

definition handleSignOut_v1 :: "(request \<Rightarrow> response) \<Rightarrow> auth_state \<Rightarrow> auth_state" where
  "handleSignOut_v1 backend s =
     (let (resp, s1) = fetch backend Logout (s\<lparr> s_loading := True \<rparr>);
          s2 = cleanupAllTokens s1;
          s3 = s2\<lparr> s_user := None, s_token := None, s_error := None,
                   s_showDashboard := False, s_loading := False \<rparr>
      in s3\<lparr> s_trace := s_trace s3 @ [OnSignOut] \<rparr>)"

section \<open>The other sign-out paths\<close>

text \<open>
  \<open>authAPI.signOut\<close> (APIs/TaskAPI.js): the logout request, whose failure is caught, and
  the \<open>finally\<close> block.
\<close>

definition signOut :: "(request \<Rightarrow> response) \<Rightarrow> auth_state \<Rightarrow> auth_state" where
  "signOut backend s =
     (let (resp, s1) = fetch backend Logout s
      in removeItem ''deeptalk_token_timestamp'' (removeItem ''deeptalk_token'' s1))"

text \<open>
  \<open>handleSignOut\<close> of the page (pages/Index.tsx), bound to the header's sign-out button:
  no request; the page's own state is not part of this model.
\<close>

definition handleSignOut_Index :: "auth_state \<Rightarrow> auth_state" where
  "handleSignOut_Index s =
     removeItem ''deeptalk_token_timestamp'' (removeItem ''deeptalk_token'' s)"

section \<open>The mapping tables as the specification states them\<close>


definition spec_backend_priority :: "string \<rightharpoonup> int" where
  "spec_backend_priority = [''urgent'' \<mapsto> 1, ''high'' \<mapsto> 2, ''medium'' \<mapsto> 3, ''low'' \<mapsto> 5]"

section \<open>A concrete platform and concrete inputs\<close>

text \<open>
  The transformations are stated for any date type and any platform functions.  To run them
  on concrete inputs, a date is represented by its ISO string (\<open>YYYY-MM-DDTHH:mm:ss.sssZ\<close>);
  the string \<open>Invalid Date\<close> is a date without a time value, on which formatting and
  \<open>toISOString\<close> throw.
\<close>

definition pad2 :: "int \<Rightarrow> string" where
  "pad2 n = (if n < 10 then CHR ''0'' # number_toString n else number_toString n)"

definition example_newDate :: "string \<Rightarrow> string" where
  "example_newDate str = str"

definition example_newDateMs :: "int \<Rightarrow> string" where
  "example_newDateMs ms = ''@'' @ number_toString ms"

definition example_format_HHmm :: "string \<Rightarrow> error + string" where
  "example_format_HHmm d = (if d = ''Invalid Date'' then Inl RangeError else Inr (take 5 (drop 11 d)))"

definition example_formatTime :: "string \<Rightarrow> string" where
  "example_formatTime str = take 5 (drop 11 str)"

definition example_setHours :: "string \<Rightarrow> int option \<Rightarrow> int option \<Rightarrow> string" where
  "example_setHours d h m =
     (case h of
        None \<Rightarrow> ''Invalid Date''
      | Some hh \<Rightarrow>
          (case m of
             None \<Rightarrow> ''Invalid Date''
           | Some mm \<Rightarrow> take 11 d @ pad2 hh @ '':'' @ pad2 mm @ drop 16 d))"

definition example_toISOString :: "string \<Rightarrow> error + string" where
  "example_toISOString d = (if d = ''Invalid Date'' then Inl RangeError else Inr d)"

definition example_task :: BackendTask where
  "example_task =
     \<lparr> t_id = ''42'', t_name = ''Write report'', t_description = '''', t_category = None,
       t_tags = [], t_deadline = None, t_duration_minutes = None, t_specific_time = None,
       t_priority = 4, t_urgency = 3, t_status = ''pending'', t_completion_percentage = 0,
       t_location = '''', t_required_tools = [],
       t_created_at = ''2024-05-01T09:00:00.000Z'', t_updated_at = ''2024-05-01T09:00:00.000Z'',
       t_completed_at = None \<rparr>"

definition example_scheduled_task :: BackendTask where
  "example_scheduled_task =
     example_task\<lparr> t_specific_time := Some ''2024-05-03T10:15:00.000Z'',
                    t_deadline := Some ''2024-05-10T17:00:00.000Z'' \<rparr>"

definition example_event :: "string CalendarEvent" where
  "example_event =
     \<lparr> e_id = Some ''42'', e_title = Some ''Write report'', e_description = None,
       e_date = Some ''2024-05-01T09:00:00.000Z'', e_time = Some ''14:30'', e_deadline = None,
       e_duration = Some 45, e_priority = Some ''low'', e_status = Some ''completed'',
       e_category = None, e_tags = None, e_location = None, e_color = None,
       e_type = Some ''task'', e_completed = Some True, e_progress = None \<rparr>"

text \<open>
  The calendar event under which \<open>example_task\<close>, a pending task, is displayed.
\<close>

definition example_displayed_event :: "string CalendarEvent" where
  "example_displayed_event =
     \<lparr> e_id = Some ''42'', e_title = Some ''Write report'', e_description = Some '''',
       e_date = Some ''2024-05-01T09:00:00.000Z'', e_time = None, e_deadline = None,
       e_duration = None, e_priority = Some ''medium'', e_status = Some ''not_started'',
       e_category = None, e_tags = Some [], e_location = Some '''', e_color = Some ''#3b82f6'',
       e_type = Some ''task'', e_completed = Some False, e_progress = Some 0 \<rparr>"

text \<open>
  An event object that carries one more property, \<open>urgency\<close>, next to those of the
  interface.
\<close>

record 'd EventWithUrgency = "'d CalendarEvent" +
  e_urgency :: int

definition example_urgent_event :: "string EventWithUrgency" where
  "example_urgent_event = CalendarEvent.extend example_event (EventWithUrgency.fields 1)"

section \<open>Notions used to state the authentication claims\<close>

text \<open>The requests among the effects of a run, in order.\<close>

fun fetches :: "effect list \<Rightarrow> request list" where
  "fetches [] = []"
| "fetches (Fetch r # es) = r # fetches es"
| "fetches (e # es) = fetches es"

text \<open>The characters \<open>0\<close> to \<open>9\<close>.\<close>

definition is_digit :: "char \<Rightarrow> bool" where
  "is_digit c = (48 \<le> (of_char c :: int) \<and> (of_char c :: int) \<le> 57)"

text \<open>
  A verification succeeds on a response that is \<open>ok\<close> and whose JSON body has an email:
  exactly then \<open>verifyTokenAuth\<close>, \<open>verifySessionAuth\<close>, \<open>verifyToken\<close> and
  \<open>checkSessionAuth\<close> return \<open>true\<close>.
\<close>

definition accepted :: "response \<Rightarrow> bool" where
  "accepted resp =
     (case resp of
        NetworkError \<Rightarrow> False
      | Response ok body \<Rightarrow> ok \<and> (case body of None \<Rightarrow> False | Some data \<Rightarrow> email data \<noteq> None))"

text \<open>
  Concrete browser states and backends: a stored token that is eight days old, a backend
  that cannot be reached, a backend that accepts every request, a page opened with a token
  in the URL over an older stored token, and a storage that still holds the legacy keys.
\<close>

definition expired_state :: auth_state where
  "expired_state =
     \<lparr> s_storage = [''deeptalk_token'' \<mapsto> ''abc.def.ghi'',
                     ''deeptalk_token_timestamp'' \<mapsto> ''1000''],
       s_url_token = None, s_user = None, s_loading = True, s_error = None,
       s_authMethod = None, s_token = None, s_showDashboard = False, s_trace = [] \<rparr>"

definition offline_backend :: "request \<Rightarrow> response" where
  "offline_backend req = NetworkError"

definition accepting_backend :: "request \<Rightarrow> response" where
  "accepting_backend req =
     Response True
       (Some \<lparr> user_id = ''7'', email = Some ''ann@example.org'', first_name = None,
               last_name = None, login_method = ''token'', error_msg = None \<rparr>)"

definition url_token_state :: auth_state where
  "url_token_state =
     \<lparr> s_storage = [''deeptalk_token'' \<mapsto> ''old.stored.token'',
                     ''deeptalk_token_timestamp'' \<mapsto> ''1000''],
       s_url_token = Some ''new.url.token'', s_user = None, s_loading = True, s_error = None,
       s_authMethod = None, s_token = None, s_showDashboard = False, s_trace = [] \<rparr>"

definition legacy_state :: auth_state where
  "legacy_state =
     \<lparr> s_storage = [''deeptalk_token'' \<mapsto> ''current.token'',
                     ''deeptalk_token_timestamp'' \<mapsto> ''2000'',
                     ''gmail_token'' \<mapsto> ''legacy.token'',
                     ''gmail_token_timestamp'' \<mapsto> ''1000''],
       s_url_token = None, s_user = None, s_loading = False, s_error = None,
       s_authMethod = None, s_token = None, s_showDashboard = False, s_trace = [] \<rparr>"

section \<open>Lemmas about the two transformations\<close>

text \<open>What a returned event holds, and when \<open>transformBackendTaskToCalendarEvent\<close> returns.\<close>

lemma forward_fields:
  assumes "transformBackendTaskToCalendarEvent newDate format_HHmm task = Inr ev"
  shows "e_priority ev = Some (or_str (map_of priorityMap_display (t_priority task)) ''medium'')"
    and "e_status ev = Some (or_str (map_of statusMap_display (t_status task)) ''not_started'')"
    and "e_date ev = Some (case truthy_str (t_specific_time task) of
               Some st \<Rightarrow> newDate st
             | None \<Rightarrow>
                 (case truthy_str (t_deadline task) of
                    Some dl \<Rightarrow> newDate dl
                  | None \<Rightarrow> newDate (t_created_at task)))"
  using assms
  by (auto simp: transformBackendTaskToCalendarEvent_def Let_def split: sum.splits option.splits)



text \<open>
  The timing and duration blocks of \<open>transformCalendarEventToBackendTask\<close> write three
  properties only; every other property of the payload is the one of the object literal.
\<close>

lemma back_keeps_literal:
  assumes "transformCalendarEventToBackendTask setHours toISOString ev = Inr payload"
      and "k \<notin> {''specific_time'', ''deadline'', ''duration_minutes''}"
  shows "payload k = task_literal ev k"
  using assms
  by (auto simp: transformCalendarEventToBackendTask_def set_specific_time_def set_deadline_def
        set_duration_def split: option.splits sum.splits if_splits)

text \<open>The write-back returns a payload whenever \<open>toISOString\<close> does not throw.\<close>

lemma set_specific_time_returns:
  assumes "\<forall>d. \<not> isl (toISOString d)"
  shows "\<exists>t1. set_specific_time setHours toISOString date ev task = Inr t1"
proof (cases "truthy_str (e_time ev)")
  case None
  then show ?thesis by (simp add: set_specific_time_def)
next
  case (Some time)
  let ?d = "setHours date (parseInt (split_hours time)) (parseInt_opt (split_minutes time))"
  have "\<not> isl (toISOString ?d)" using assms by blast
  then obtain str where "toISOString ?d = Inr str"
    by (cases "toISOString ?d") simp_all
  with Some show ?thesis by (simp add: set_specific_time_def)
qed

lemma set_deadline_returns:
  assumes "\<forall>d. \<not> isl (toISOString d)"
  shows "\<exists>t2. set_deadline toISOString date ev task = Inr t2"
proof -
  let ?d = "case e_deadline ev of Some dl \<Rightarrow> dl | None \<Rightarrow> date"
  have "\<not> isl (toISOString ?d)" using assms by blast
  then obtain str where "toISOString ?d = Inr str"
    by (cases "toISOString ?d") simp_all
  then show ?thesis by (simp add: set_deadline_def)
qed

lemma back_returns:
  assumes "\<forall>d. \<not> isl (toISOString d)"
  shows "\<exists>payload. transformCalendarEventToBackendTask setHours toISOString ev = Inr payload"
proof (cases "e_date ev")
  case None
  then show ?thesis by (simp add: transformCalendarEventToBackendTask_def)
next
  case (Some date)
  obtain t1 where t1: "set_specific_time setHours toISOString date ev (task_literal ev) = Inr t1"
    using set_specific_time_returns[OF assms] by blast
  obtain t2 where t2: "set_deadline toISOString date ev t1 = Inr t2"
    using set_deadline_returns[OF assms] by blast
  from Some t1 t2 show ?thesis by (simp add: transformCalendarEventToBackendTask_def)
qed

lemma back_priority_table:
  "p \<in> set display_priorities \<Longrightarrow>
     map_option JNum (spec_backend_priority p) = Some (num_or_undefined (map_of priorityMap_backend p))"
  by (auto simp: display_priorities_def spec_backend_priority_def priorityMap_backend_def
        num_or_undefined_def)

lemma back_deadline:
  assumes "transformCalendarEventToBackendTask setHours toISOString ev = Inr payload"
      and "e_date ev = Some date"
  shows "\<exists>str. toISOString (case e_deadline ev of Some dl \<Rightarrow> dl | None \<Rightarrow> date) = Inr str
           \<and> payload ''deadline'' = Some (JStr str)"
  using assms
  by (auto simp: transformCalendarEventToBackendTask_def set_specific_time_def set_deadline_def
        set_duration_def split: option.splits sum.splits if_splits)

lemma back_no_date:
  assumes "e_date ev = None"
  shows "transformCalendarEventToBackendTask setHours toISOString ev
           = Inr (set_duration ev (task_literal ev))"
    and "set_duration ev (task_literal ev) ''deadline'' = None"
  using assms
  by (simp_all add: transformCalendarEventToBackendTask_def set_duration_def task_literal_def
        split: option.splits)

text \<open>
  The write-back reads the declared properties of the event only: it gives the same result
  on the event cut down to the interface.
\<close>

lemma truncate_fields:
  "e_date (CalendarEvent.truncate ev) = e_date ev"
  "e_time (CalendarEvent.truncate ev) = e_time ev"
  "e_deadline (CalendarEvent.truncate ev) = e_deadline ev"
  "e_duration (CalendarEvent.truncate ev) = e_duration ev"
  "e_title (CalendarEvent.truncate ev) = e_title ev"
  "e_description (CalendarEvent.truncate ev) = e_description ev"
  "e_tags (CalendarEvent.truncate ev) = e_tags ev"
  "e_location (CalendarEvent.truncate ev) = e_location ev"
  "e_priority (CalendarEvent.truncate ev) = e_priority ev"
  by (simp_all add: CalendarEvent.truncate_def)

lemma helpers_truncate:
  "task_literal (CalendarEvent.truncate ev) = task_literal ev"
  "set_specific_time setHours toISOString date (CalendarEvent.truncate ev) task
     = set_specific_time setHours toISOString date ev task"
  "set_deadline toISOString date (CalendarEvent.truncate ev) task
     = set_deadline toISOString date ev task"
  "set_duration (CalendarEvent.truncate ev) task = set_duration ev task"
  by (simp_all add: set_specific_time_def set_deadline_def set_duration_def task_literal_def
        truncate_fields)

lemma back_truncate:
  "transformCalendarEventToBackendTask setHours toISOString (CalendarEvent.truncate ev)
     = transformCalendarEventToBackendTask setHours toISOString ev"
  by (cases "e_date ev")
     (simp_all add: transformCalendarEventToBackendTask_def helpers_truncate truncate_fields
        cong: sum.case_cong)

lemma back_priority_urgency:
  assumes "transformCalendarEventToBackendTask setHours toISOString ev = Inr payload"
  shows "payload ''priority'' =
           Some (case truthy_str (e_priority ev) of
                   Some p \<Rightarrow> num_or_undefined (map_of priorityMap_backend p)
                 | None \<Rightarrow> JNum 3)"
    and "payload ''urgency'' =
           Some (case truthy_str (e_priority ev) of
                   Some p \<Rightarrow> num_or_undefined (map_of priorityMap_backend p)
                 | None \<Rightarrow> JNum 3)"
    and "payload ''name'' = Some (JStr (or_str (e_title ev) ''''))"
  using back_keeps_literal[OF assms, of "''priority''"]
        back_keeps_literal[OF assms, of "''urgency''"]
        back_keeps_literal[OF assms, of "''name''"]
  by (simp_all add: task_literal_def)

lemma display_priority_truthy:
  "p \<in> set display_priorities \<Longrightarrow> truthy_str (Some p) = Some p"
  by (auto simp: display_priorities_def truthy_str_def)

lemma forward_priority_4:
  assumes "t_priority task = 4"
      and "transformBackendTaskToCalendarEvent newDate format_HHmm task = Inr ev"
  shows "e_priority ev = Some ''medium''"
  using forward_fields(1)[OF assms(2)] assms(1)
  by (simp add: priorityMap_display_def or_str_def truthy_str_def)

text \<open>The write-back on the concrete event, and on an event whose time does not parse.\<close>

lemma example_event_payload:
  "transformCalendarEventToBackendTask example_setHours example_toISOString example_event
     = Inr [''name'' \<mapsto> JStr ''Write report'',
            ''description'' \<mapsto> JStr '''',
            ''tags'' \<mapsto> JList [],
            ''location'' \<mapsto> JStr '''',
            ''priority'' \<mapsto> JNum 5,
            ''urgency'' \<mapsto> JNum 5,
            ''specific_time'' \<mapsto> JStr ''2024-05-01T14:30:00.000Z'',
            ''deadline'' \<mapsto> JStr ''2024-05-01T09:00:00.000Z'',
            ''duration_minutes'' \<mapsto> JNum 45]"
proof -
  have t: "truthy_str (Some ''14:30'') = Some ''14:30''" by (simp add: truthy_str_def)
  have h: "parseInt (split_hours ''14:30'') = Some 14" by code_simp
  have m: "parseInt_opt (split_minutes ''14:30'') = Some 30" by code_simp
  have p14: "pad2 14 = ''14''" by code_simp
  have p30: "pad2 30 = ''30''" by code_simp
  have sh: "example_setHours ''2024-05-01T09:00:00.000Z'' (Some 14) (Some 30)
              = ''2024-05-01T14:30:00.000Z''"
    by (simp add: example_setHours_def p14 p30)
  show ?thesis
    by (simp add: transformCalendarEventToBackendTask_def set_specific_time_def set_deadline_def
          set_duration_def task_literal_def example_event_def t h m sh example_toISOString_def
          or_str_def truthy_str_def priorityMap_backend_def num_or_undefined_def)
qed

lemma example_bad_time_throws:
  "transformCalendarEventToBackendTask example_setHours example_toISOString
     (example_event\<lparr> e_time := Some ''soon'' \<rparr>) = Inl RangeError"
proof -
  have t: "truthy_str (Some ''soon'') = Some ''soon''" by (simp add: truthy_str_def)
  have h: "parseInt (split_hours ''soon'') = None" by code_simp
  show ?thesis
    by (simp add: transformCalendarEventToBackendTask_def set_specific_time_def
          example_event_def t h example_setHours_def example_toISOString_def)
qed

lemma example_urgent_event_truncate:
  "CalendarEvent.truncate example_urgent_event = example_event"
  by (simp add: example_urgent_event_def CalendarEvent.truncate_def CalendarEvent.extend_def
        example_event_def)

section \<open>Lemmas about numbers and their decimal strings\<close>

text \<open>
  A timestamp written with \<open>Date.now().toString()\<close> is read back by \<open>parseInt\<close> as the
  same number.
\<close>

lemma digit_char:
  fixes d :: int
  assumes "0 \<le> d" and "d < 10"
  shows "(of_char (char_of (48 + d) :: char) :: int) = 48 + d"
  using assms by simp

lemma digit_value_digit:
  fixes d :: int
  assumes "0 \<le> d" and "d < 10"
  shows "digit_value 10 (char_of (48 + d)) = Some d"
  using assms by (simp add: digit_value_def Let_def digit_char)

lemma is_digit_char:
  fixes d :: int
  assumes "0 \<le> d" and "d < 10"
  shows "is_digit (char_of (48 + d))"
  using assms by (simp add: is_digit_def digit_char)

lemma show_digits_digits:
  "0 \<le> n \<Longrightarrow> show_digits n \<noteq> [] \<and> (\<forall>c \<in> set (show_digits n). is_digit c)"
proof (induction n rule: show_digits.induct)
  case (1 n)
  show ?case
  proof (cases "n < 10")
    case True
    then show ?thesis using "1.prems" by (simp add: show_digits.simps[of n] is_digit_char)
  next
    case False
    then have "0 \<le> n div 10" by simp
    with "1.IH" False have ih: "\<forall>c \<in> set (show_digits (n div 10)). is_digit c" by simp
    have m: "is_digit (char_of (48 + n mod 10))"
      by (rule is_digit_char) simp_all
    show ?thesis using False ih m by (simp add: show_digits.simps[of n])
  qed
qed

lemma parse_show_digits:
  "0 \<le> n \<Longrightarrow>
     parse_digits 10 (show_digits n @ rest) acc
       = parse_digits 10 rest
           (Some ((case acc of None \<Rightarrow> 0 | Some a \<Rightarrow> a) * 10 ^ length (show_digits n) + n))"
proof (induction n arbitrary: rest acc rule: show_digits.induct)
  case (1 n)
  show ?case
  proof (cases "n < 10")
    case True
    then show ?thesis
      using "1.prems" by (simp add: show_digits.simps[of n] digit_value_digit mult.commute)
  next
    case False
    then have nn: "0 \<le> n div 10" by simp
    have dv: "digit_value 10 (char_of (48 + n mod 10)) = Some (n mod 10)"
      by (rule digit_value_digit) simp_all
    have "parse_digits 10 (show_digits n @ rest) acc
            = parse_digits 10 (show_digits (n div 10) @ (char_of (48 + n mod 10) # rest)) acc"
      using False by (simp add: show_digits.simps[of n])
    also have "\<dots> = parse_digits 10 (char_of (48 + n mod 10) # rest)
           (Some ((case acc of None \<Rightarrow> 0 | Some a \<Rightarrow> a) * 10 ^ length (show_digits (n div 10))
                    + n div 10))"
      using "1.IH"[OF False nn] by simp
    also have "\<dots> = parse_digits 10 rest
           (Some ((case acc of None \<Rightarrow> 0 | Some a \<Rightarrow> a) * 10 ^ length (show_digits n) + n))"
      using False by (simp add: dv show_digits.simps[of n] algebra_simps)
    finally show ?thesis .
  qed
qed

lemma is_digit_not_space: "is_digit c \<Longrightarrow> \<not> is_space c"
  by (auto simp: is_digit_def is_space_def)

lemma is_digit_not_sign: "is_digit c \<Longrightarrow> c \<noteq> CHR ''-'' \<and> c \<noteq> CHR ''+'' \<and> c \<noteq> CHR ''x'' \<and> c \<noteq> CHR ''X''"
  by (auto simp: is_digit_def)

lemma parseInt_digits:
  assumes "s \<noteq> []" and "\<forall>c \<in> set s. is_digit c"
  shows "parseInt s = parse_digits 10 s None"
proof -
  obtain c cs where s: "s = c # cs" using assms(1) by (cases s) auto
  have c: "is_digit c" using assms(2) s by simp
  have 1: "dropWhile is_space s = s" using s c is_digit_not_space by simp
  have 2: "take 2 s \<noteq> ''0x'' \<and> take 2 s \<noteq> ''0X''"
  proof (cases cs)
    case Nil
    then show ?thesis using s by simp
  next
    case (Cons e es)
    then have "is_digit e" using assms(2) s by simp
    then show ?thesis using s Cons is_digit_not_sign[of e] by auto
  qed
  have sgn: "(case s of c # _ \<Rightarrow> if c = CHR ''-'' then - 1 else (1::int) | [] \<Rightarrow> 1) = 1"
    using s is_digit_not_sign[OF c] by simp
  have s2: "(case s of c # cs \<Rightarrow> if c = CHR ''-'' \<or> c = CHR ''+'' then cs else s | [] \<Rightarrow> s) = s"
    using s is_digit_not_sign[OF c] by simp
  show ?thesis
    unfolding parseInt_def Let_def 1 sgn s2 using 2
    by (cases "parse_digits 10 s None") simp_all
qed

lemma parseInt_number_toString:
  assumes "0 \<le> n"
  shows "parseInt (number_toString n) = Some n"
proof -
  have d: "show_digits n \<noteq> [] \<and> (\<forall>c \<in> set (show_digits n). is_digit c)"
    using show_digits_digits[OF assms] .
  have "parseInt (show_digits n) = parse_digits 10 (show_digits n @ []) None"
    using parseInt_digits d by simp
  also have "\<dots> = Some n"
    using parse_show_digits[OF assms, of "[]" None] by simp
  finally show ?thesis using assms by (simp add: number_toString_def)
qed

section \<open>Lemmas about the authentication resolver\<close>

text \<open>
  What each step does to the storage, to the trace and to the component state; the traces
  are given as the trace before the step followed by the effects of the step.
\<close>

lemma fetches_append: "fetches (xs @ ys) = fetches xs @ fetches ys"
  by (induction xs rule: fetches.induct) simp_all

lemma removeItem_fields:
  "s_storage (removeItem k s) = (s_storage s)(k := None)"
  "s_trace (removeItem k s) = s_trace s @ [RemoveItem k]"
  "s_url_token (removeItem k s) = s_url_token s"
  "s_user (removeItem k s) = s_user s"
  "s_authMethod (removeItem k s) = s_authMethod s"
  by (simp_all add: removeItem_def)

lemma setItem_fields:
  "s_storage (setItem k v s) = (s_storage s)(k \<mapsto> v)"
  "s_trace (setItem k v s) = s_trace s @ [SetItem k v]"
  "s_url_token (setItem k v s) = s_url_token s"
  "s_user (setItem k v s) = s_user s"
  "s_authMethod (setItem k v s) = s_authMethod s"
  by (simp_all add: setItem_def)

lemma replaceState_fields:
  "s_storage (replaceState s) = s_storage s"
  "s_trace (replaceState s) = s_trace s @ [ReplaceState]"
  "s_user (replaceState s) = s_user s"
  "s_authMethod (replaceState s) = s_authMethod s"
  by (simp_all add: replaceState_def)

lemma cleanupStoredTokens_fields:
  "s_storage (cleanupStoredTokens s) =
     (s_storage s)(''deeptalk_token'' := None, ''deeptalk_token_timestamp'' := None,
                   ''gmail_token'' := None, ''gmail_token_timestamp'' := None)"
  "s_trace (cleanupStoredTokens s) =
     s_trace s @ [RemoveItem ''deeptalk_token'', RemoveItem ''deeptalk_token_timestamp'',
                  RemoveItem ''gmail_token'', RemoveItem ''gmail_token_timestamp'']"
  "s_url_token (cleanupStoredTokens s) = s_url_token s"
  "s_user (cleanupStoredTokens s) = s_user s"
  "s_authMethod (cleanupStoredTokens s) = s_authMethod s"
  by (simp_all add: cleanupStoredTokens_def removeItem_fields TOKEN_KEY_def TOKEN_TIMESTAMP_KEY_def)

lemma cleanupAllTokens_eq: "cleanupAllTokens s = cleanupStoredTokens s"
  by (simp add: cleanupAllTokens_def cleanupStoredTokens_def TOKEN_KEY_def TOKEN_TIMESTAMP_KEY_def)

lemma verifyTokenAuth_result:
  "fst (verifyTokenAuth backend token s) = accepted (backend (VerifyToken (Some token)))"
  by (auto simp: verifyTokenAuth_def fetch_def accepted_def createUserData_def
        split: response.splits option.splits sum.splits)

lemma verifyTokenAuth_effects:
  "\<exists>rest. s_trace (snd (verifyTokenAuth backend token s))
            = s_trace s @ [Fetch (VerifyToken (Some token))] @ rest \<and> fetches rest = []"
  by (auto simp: verifyTokenAuth_def fetch_def onAuthSuccess_def
        split: response.splits option.splits sum.splits)

lemma verifyTokenAuth_storage:
  "s_storage (snd (verifyTokenAuth backend token s)) = s_storage s"
  by (auto simp: verifyTokenAuth_def fetch_def onAuthSuccess_def
        split: response.splits option.splits sum.splits)

lemma verifyTokenAuth_user:
  "accepted (backend (VerifyToken (Some token))) \<Longrightarrow>
     (\<exists>u. s_user (snd (verifyTokenAuth backend token s)) = Some u \<and> u_loginMethod u = ''token'')
     \<and> s_authMethod (snd (verifyTokenAuth backend token s)) = Some ''token''"
  by (auto simp: verifyTokenAuth_def fetch_def onAuthSuccess_def accepted_def createUserData_def
        split: response.splits option.splits sum.splits)

lemma verifySessionAuth_effects:
  "\<exists>rest. s_trace (snd (verifySessionAuth backend s))
            = s_trace s @ [Fetch VerifySession] @ rest \<and> fetches rest = []"
  by (auto simp: verifySessionAuth_def fetch_def onAuthSuccess_def
        split: response.splits option.splits sum.splits)

lemma verifySessionAuth_storage:
  "s_storage (snd (verifySessionAuth backend s)) = s_storage s"
  by (auto simp: verifySessionAuth_def fetch_def onAuthSuccess_def
        split: response.splits option.splits sum.splits)

lemma session_step_effects:
  "\<exists>rest. s_trace (session_step backend s)
            = s_trace s @ [Fetch VerifySession] @ rest \<and> fetches rest = []"
  using verifySessionAuth_effects[of backend s]
  by (auto simp: session_step_def split: prod.splits)

lemma session_step_storage:
  "s_storage (session_step backend s) = s_storage s"
  using verifySessionAuth_storage[of backend s]
  by (auto simp: session_step_def split: prod.splits)

lemma getValidStoredToken_expired:
  assumes "truthy_str (s_storage s ''deeptalk_token'') = Some token"
      and "truthy_str (s_storage s ''deeptalk_token_timestamp'') = Some timestamp"
      and "parseInt timestamp = Some t"
      and "now - t \<ge> 604800000"
  shows "getValidStoredToken now s = (None, cleanupStoredTokens s)"
  using assms
  by (simp add: getValidStoredToken_def getItem_def TOKEN_KEY_def TOKEN_TIMESTAMP_KEY_def
        TOKEN_EXPIRY_DAYS_def)

lemma number_toString_truthy:
  assumes "0 \<le> n"
  shows "truthy_str (Some (number_toString n)) = Some (number_toString n)"
  using show_digits_digits[OF assms] assms by (simp add: truthy_str_def number_toString_def)

lemma getValidStoredToken_fresh:
  assumes "truthy_str (Some token) = Some token"
      and "s_storage s ''deeptalk_token'' = Some token"
      and "s_storage s ''deeptalk_token_timestamp'' = Some (number_toString now)"
      and "0 \<le> now" and "now' - now < 604800000"
  shows "getValidStoredToken now' s = (Some token, s)"
  using assms number_toString_truthy[OF assms(4)] parseInt_number_toString[OF assms(4)]
  by (simp add: getValidStoredToken_def getItem_def TOKEN_KEY_def TOKEN_TIMESTAMP_KEY_def
        TOKEN_EXPIRY_DAYS_def)

lemma initializeAuth_expired:
  assumes "truthy_str (s_url_token s) = None"
      and "truthy_str (s_storage s ''deeptalk_token'') = Some token"
      and "truthy_str (s_storage s ''deeptalk_token_timestamp'') = Some timestamp"
      and "parseInt timestamp = Some t"
      and "now - t \<ge> 604800000"
  shows "initializeAuth backend now s
           = session_step backend (cleanupStoredTokens (s\<lparr> s_loading := True, s_error := None \<rparr>))"
proof -
  let ?s = "s\<lparr> s_loading := True, s_error := None \<rparr>"
  have g: "getValidStoredToken now ?s = (None, cleanupStoredTokens ?s)"
    using assms(2-5) by (intro getValidStoredToken_expired[where t = t]) simp_all
  show ?thesis
    using assms(1) g by (simp add: initializeAuth_def Let_def)
qed

lemma truthy_str_Some: "truthy_str x = Some v \<Longrightarrow> truthy_str (Some v) = Some v"
  by (auto simp: truthy_str_def split: option.splits if_splits)

lemma or_item_first: "truthy_str a = Some v \<Longrightarrow> or_item a b = Some v"
  by (simp add: or_item_def)

lemma checkSessionAuth_effects:
  "\<exists>rest. s_trace (snd (checkSessionAuth backend s))
            = s_trace s @ [Fetch (VerifyToken None)] @ rest \<and> fetches rest = []"
  by (auto simp: checkSessionAuth_def fetch_def onAuthSuccess_def
        split: response.splits option.splits sum.splits)

lemma checkSessionAuth_storage:
  "s_storage (snd (checkSessionAuth backend s)) = s_storage s"
  by (auto simp: checkSessionAuth_def fetch_def onAuthSuccess_def
        split: response.splits option.splits sum.splits)

lemma session_check_v1_effects:
  "\<exists>rest. s_trace (session_check_v1 backend s)
            = s_trace s @ [Fetch (VerifyToken None)] @ rest \<and> fetches rest = []"
  using checkSessionAuth_effects[of backend s]
  by (auto simp: session_check_v1_def split: prod.splits)

lemma session_check_v1_storage:
  "s_storage (session_check_v1 backend s) = s_storage s"
  using checkSessionAuth_storage[of backend s]
  by (auto simp: session_check_v1_def split: prod.splits)

lemma stored_token_check_v1_expired:
  assumes "truthy_str (s_storage s ''deeptalk_token'') = Some token"
      and "truthy_str (s_storage s ''deeptalk_token_timestamp'') = Some timestamp"
      and "parseInt timestamp = Some t"
      and "now - t \<ge> 604800000"
  shows "stored_token_check_v1 backend now s
           = session_check_v1 backend ((cleanupAllTokens s)\<lparr> s_token := None \<rparr>)"
proof -
  have 1: "truthy_str (or_item (getItem ''deeptalk_token'' s) (getItem ''gmail_token'' s))
             = Some token"
    using assms(1) by (simp add: getItem_def or_item_first truthy_str_Some)
  have 2: "truthy_str (or_item (getItem ''deeptalk_token_timestamp'' s)
                               (getItem ''gmail_token_timestamp'' s)) = Some timestamp"
    using assms(2) by (simp add: getItem_def or_item_first truthy_str_Some)
  show ?thesis
    using assms(3,4) by (simp add: stored_token_check_v1_def 1 2)
qed

lemma checkExistingAuth_expired:
  assumes "truthy_str (s_url_token s) = None"
      and "truthy_str (s_storage s ''deeptalk_token'') = Some token"
      and "truthy_str (s_storage s ''deeptalk_token_timestamp'') = Some timestamp"
      and "parseInt timestamp = Some t"
      and "now - t \<ge> 604800000"
  shows "checkExistingAuth backend now s
           = session_check_v1 backend
               ((cleanupAllTokens (s\<lparr> s_loading := True, s_error := None \<rparr>))\<lparr> s_token := None \<rparr>)"
proof -
  let ?s = "s\<lparr> s_loading := True, s_error := None \<rparr>"
  have g: "stored_token_check_v1 backend now ?s
             = session_check_v1 backend ((cleanupAllTokens ?s)\<lparr> s_token := None \<rparr>)"
    using assms(2-5) by (intro stored_token_check_v1_expired[where t = t]) simp_all
  show ?thesis
    using assms(1) g by (simp add: checkExistingAuth_def Let_def)
qed

lemma checkExistingAuth_expired_trace:
  assumes "truthy_str (s_url_token s) = None"
      and "truthy_str (s_storage s ''deeptalk_token'') = Some token"
      and "truthy_str (s_storage s ''deeptalk_token_timestamp'') = Some timestamp"
      and "parseInt timestamp = Some t"
      and "now - t \<ge> 604800000"
  shows "\<exists>rest. s_trace (checkExistingAuth backend now s)
                  = s_trace s @ [RemoveItem ''deeptalk_token'',
                                 RemoveItem ''deeptalk_token_timestamp'',
                                 RemoveItem ''gmail_token'',
                                 RemoveItem ''gmail_token_timestamp'',
                                 Fetch (VerifyToken None)] @ rest
               \<and> fetches rest = []"
proof -
  let ?c = "(cleanupAllTokens (s\<lparr> s_loading := True, s_error := None \<rparr>))\<lparr> s_token := None \<rparr>"
  have run: "checkExistingAuth backend now s = session_check_v1 backend ?c"
    using checkExistingAuth_expired[OF assms] .
  obtain rest where
    r: "s_trace (session_check_v1 backend ?c) = s_trace ?c @ [Fetch (VerifyToken None)] @ rest"
       "fetches rest = []"
    using session_check_v1_effects[of backend ?c] by blast
  have "s_trace (checkExistingAuth backend now s)
                  = s_trace s @ [RemoveItem ''deeptalk_token'',
                                 RemoveItem ''deeptalk_token_timestamp'',
                                 RemoveItem ''gmail_token'',
                                 RemoveItem ''gmail_token_timestamp'',
                                 Fetch (VerifyToken None)] @ rest"
    unfolding run r(1) by (simp add: cleanupAllTokens_eq cleanupStoredTokens_fields)
  with r(2) show ?thesis by blast
qed

lemma processNewToken_effects:
  "\<exists>rest. s_trace (processNewToken backend now token s)
            = s_trace s @ [SetItem ''deeptalk_token'' token,
                           SetItem ''deeptalk_token_timestamp'' (number_toString now),
                           ReplaceState,
                           Fetch (VerifyToken (Some token))] @ rest
         \<and> fetches rest = []"
proof -
  let ?s3 = "replaceState (setItem TOKEN_TIMESTAMP_KEY (number_toString now)
                             (setItem TOKEN_KEY token s))"
  obtain rest where
    r: "s_trace (snd (verifyTokenAuth backend token ?s3))
          = s_trace ?s3 @ [Fetch (VerifyToken (Some token))] @ rest" "fetches rest = []"
    using verifyTokenAuth_effects[of backend token ?s3] by blast
  have t3: "s_trace ?s3 = s_trace s @ [SetItem ''deeptalk_token'' token,
                           SetItem ''deeptalk_token_timestamp'' (number_toString now),
                           ReplaceState]"
    by (simp add: replaceState_fields setItem_fields TOKEN_KEY_def TOKEN_TIMESTAMP_KEY_def)
  show ?thesis
  proof (cases "fst (verifyTokenAuth backend token ?s3)")
    case True
    then have "processNewToken backend now token s = snd (verifyTokenAuth backend token ?s3)"
      by (simp add: processNewToken_def Let_def case_prod_beta)
    then show ?thesis using r t3 by simp
  next
    case False
    then have "processNewToken backend now token s
        = (cleanupStoredTokens (cleanupStoredTokens (snd (verifyTokenAuth backend token ?s3))))
            \<lparr> s_error := Some ''Failed to process authentication token. Please try again.'',
              s_loading := False \<rparr>"
      by (simp add: processNewToken_def Let_def case_prod_beta)
    then have "s_trace (processNewToken backend now token s)
        = s_trace s @ [SetItem ''deeptalk_token'' token,
                           SetItem ''deeptalk_token_timestamp'' (number_toString now),
                           ReplaceState,
                           Fetch (VerifyToken (Some token))]
            @ (rest @ [RemoveItem ''deeptalk_token'', RemoveItem ''deeptalk_token_timestamp'',
                  RemoveItem ''gmail_token'', RemoveItem ''gmail_token_timestamp'',
                  RemoveItem ''deeptalk_token'', RemoveItem ''deeptalk_token_timestamp'',
                  RemoveItem ''gmail_token'', RemoveItem ''gmail_token_timestamp''])"
      using r(1) t3 by (simp add: cleanupStoredTokens_fields)
    moreover have "fetches (rest @ [RemoveItem ''deeptalk_token'', RemoveItem ''deeptalk_token_timestamp'',
                  RemoveItem ''gmail_token'', RemoveItem ''gmail_token_timestamp'',
                  RemoveItem ''deeptalk_token'', RemoveItem ''deeptalk_token_timestamp'',
                  RemoveItem ''gmail_token'', RemoveItem ''gmail_token_timestamp'']) = []"
      using r(2) by (simp add: fetches_append)
    ultimately show ?thesis by blast
  qed
qed

lemma processNewToken_accepted:
  assumes "accepted (backend (VerifyToken (Some token)))"
  shows "(\<exists>u. s_user (processNewToken backend now token s) = Some u \<and> u_loginMethod u = ''token'')
       \<and> s_authMethod (processNewToken backend now token s) = Some ''token''
       \<and> s_storage (processNewToken backend now token s) ''deeptalk_token'' = Some token
       \<and> s_storage (processNewToken backend now token s) ''deeptalk_token_timestamp''
           = Some (number_toString now)"
proof -
  let ?s3 = "replaceState (setItem TOKEN_TIMESTAMP_KEY (number_toString now)
                             (setItem TOKEN_KEY token s))"
  have "fst (verifyTokenAuth backend token ?s3)"
    using assms by (simp add: verifyTokenAuth_result)
  then have run: "processNewToken backend now token s = snd (verifyTokenAuth backend token ?s3)"
    by (simp add: processNewToken_def Let_def case_prod_beta)
  show ?thesis
    unfolding run
    using verifyTokenAuth_user[of backend token ?s3] assms
    by (simp add: verifyTokenAuth_storage replaceState_fields setItem_fields TOKEN_KEY_def
          TOKEN_TIMESTAMP_KEY_def)
qed

lemma initializeAuth_url:
  assumes "truthy_str (s_url_token s) = Some urlToken"
  shows "initializeAuth backend now s
           = processNewToken backend now urlToken (s\<lparr> s_loading := True, s_error := None \<rparr>)"
  using assms by (simp add: initializeAuth_def Let_def)

lemma verifyToken_result:
  "fst (verifyToken backend token s) = accepted (backend (VerifyToken (Some token)))"
  by (auto simp: verifyToken_def fetch_def accepted_def userData_v1_def
        split: response.splits option.splits sum.splits)

lemma verifyToken_effects:
  "\<exists>rest. s_trace (snd (verifyToken backend token s))
            = s_trace s @ [Fetch (VerifyToken (Some token))] @ rest \<and> fetches rest = []"
  by (auto simp: verifyToken_def fetch_def onAuthSuccess_def verifyToken_caught_def
        split: response.splits option.splits sum.splits)

lemma verifyToken_storage:
  "s_storage (snd (verifyToken backend token s)) = s_storage s"
  by (auto simp: verifyToken_def fetch_def onAuthSuccess_def verifyToken_caught_def
        split: response.splits option.splits sum.splits)

lemma verifyToken_user:
  "accepted (backend (VerifyToken (Some token))) \<Longrightarrow>
     \<exists>u. s_user (snd (verifyToken backend token s)) = Some u"
  by (auto simp: verifyToken_def fetch_def onAuthSuccess_def accepted_def userData_v1_def
        split: response.splits option.splits sum.splits)

lemma stored_token_check_v1_empty:
  assumes "s_storage s ''deeptalk_token'' = None" and "s_storage s ''gmail_token'' = None"
  shows "stored_token_check_v1 backend now s = session_check_v1 backend s"
  using assms
  by (simp add: stored_token_check_v1_def getItem_def or_item_def truthy_str_def)

lemma checkExistingAuth_url_unfold:
  assumes "truthy_str (s_url_token s) = Some urlToken"
  shows "checkExistingAuth backend now s =
     (let s5 = removeItem ''gmail_token_timestamp''
                 (removeItem ''gmail_token''
                    (setItem ''deeptalk_token_timestamp'' (number_toString now)
                       (setItem ''deeptalk_token'' urlToken
                          (s\<lparr> s_loading := True, s_error := None, s_token := Some urlToken \<rparr>))));
          r = verifyToken backend urlToken s5
      in if fst r then replaceState (snd r)
         else session_check_v1 backend (cleanupAllTokens (snd r)))"
proof -
  have e: "stored_token_check_v1 backend now (cleanupAllTokens x) = session_check_v1 backend (cleanupAllTokens x)" for x
    by (rule stored_token_check_v1_empty)
       (simp_all add: cleanupAllTokens_eq cleanupStoredTokens_fields)
  show ?thesis
    using assms by (simp add: checkExistingAuth_def Let_def case_prod_beta e)
qed

lemma checkExistingAuth_url_effects:
  assumes "truthy_str (s_url_token s) = Some urlToken"
  shows "\<exists>rest. s_trace (checkExistingAuth backend now s)
            = s_trace s @ [SetItem ''deeptalk_token'' urlToken,
                           SetItem ''deeptalk_token_timestamp'' (number_toString now),
                           RemoveItem ''gmail_token'',
                           RemoveItem ''gmail_token_timestamp'',
                           Fetch (VerifyToken (Some urlToken))] @ rest
         \<and> fetches rest
             = (if accepted (backend (VerifyToken (Some urlToken))) then [] else [VerifyToken None])"
proof -
  let ?s5 = "removeItem ''gmail_token_timestamp''
                 (removeItem ''gmail_token''
                    (setItem ''deeptalk_token_timestamp'' (number_toString now)
                       (setItem ''deeptalk_token'' urlToken
                          (s\<lparr> s_loading := True, s_error := None, s_token := Some urlToken \<rparr>))))"
  let ?r = "verifyToken backend urlToken ?s5"
  have t5: "s_trace ?s5 = s_trace s @ [SetItem ''deeptalk_token'' urlToken,
                           SetItem ''deeptalk_token_timestamp'' (number_toString now),
                           RemoveItem ''gmail_token'',
                           RemoveItem ''gmail_token_timestamp'']"
    by (simp add: removeItem_fields setItem_fields)
  obtain rest where
    r: "s_trace (snd ?r) = s_trace ?s5 @ [Fetch (VerifyToken (Some urlToken))] @ rest"
       "fetches rest = []"
    using verifyToken_effects[of backend urlToken ?s5] by blast
  show ?thesis
  proof (cases "accepted (backend (VerifyToken (Some urlToken)))")
    case True
    then have "fst ?r" by (simp add: verifyToken_result)
    then have run: "checkExistingAuth backend now s = replaceState (snd ?r)"
      using checkExistingAuth_url_unfold[OF assms, of backend now] by (simp add: Let_def)
    have "s_trace (checkExistingAuth backend now s)
            = s_trace s @ [SetItem ''deeptalk_token'' urlToken,
                           SetItem ''deeptalk_token_timestamp'' (number_toString now),
                           RemoveItem ''gmail_token'',
                           RemoveItem ''gmail_token_timestamp'',
                           Fetch (VerifyToken (Some urlToken))] @ (rest @ [ReplaceState])"
      unfolding run using r(1) t5 by (simp add: replaceState_fields)
    moreover have "fetches (rest @ [ReplaceState]) = []"
      using r(2) by (simp add: fetches_append)
    ultimately show ?thesis using True by auto
  next
    case False
    then have "\<not> fst ?r" by (simp add: verifyToken_result)
    then have run: "checkExistingAuth backend now s
                      = session_check_v1 backend (cleanupAllTokens (snd ?r))"
      using checkExistingAuth_url_unfold[OF assms, of backend now] by (simp add: Let_def)
    obtain rest2 where
      r2: "s_trace (session_check_v1 backend (cleanupAllTokens (snd ?r)))
             = s_trace (cleanupAllTokens (snd ?r)) @ [Fetch (VerifyToken None)] @ rest2"
          "fetches rest2 = []"
      using session_check_v1_effects[of backend "cleanupAllTokens (snd ?r)"] by blast
    have "s_trace (checkExistingAuth backend now s)
            = s_trace s @ [SetItem ''deeptalk_token'' urlToken,
                           SetItem ''deeptalk_token_timestamp'' (number_toString now),
                           RemoveItem ''gmail_token'',
                           RemoveItem ''gmail_token_timestamp'',
                           Fetch (VerifyToken (Some urlToken))]
                @ (rest @ [RemoveItem ''deeptalk_token'', RemoveItem ''deeptalk_token_timestamp'',
                           RemoveItem ''gmail_token'', RemoveItem ''gmail_token_timestamp'',
                           Fetch (VerifyToken None)] @ rest2)"
      unfolding run r2(1) using r(1) t5
      by (simp add: cleanupAllTokens_eq cleanupStoredTokens_fields)
    moreover have "fetches (rest @ [RemoveItem ''deeptalk_token'',
                           RemoveItem ''deeptalk_token_timestamp'',
                           RemoveItem ''gmail_token'', RemoveItem ''gmail_token_timestamp'',
                           Fetch (VerifyToken None)] @ rest2) = [VerifyToken None]"
      using r(2) r2(2) by (simp add: fetches_append)
    ultimately show ?thesis using False by auto
  qed
qed

lemma checkExistingAuth_url_accepted:
  assumes "truthy_str (s_url_token s) = Some urlToken"
      and "accepted (backend (VerifyToken (Some urlToken)))"
  shows "(\<exists>u. s_user (checkExistingAuth backend now s) = Some u)
       \<and> s_storage (checkExistingAuth backend now s) ''deeptalk_token'' = Some urlToken
       \<and> s_storage (checkExistingAuth backend now s) ''deeptalk_token_timestamp''
           = Some (number_toString now)"
proof -
  let ?s5 = "removeItem ''gmail_token_timestamp''
                 (removeItem ''gmail_token''
                    (setItem ''deeptalk_token_timestamp'' (number_toString now)
                       (setItem ''deeptalk_token'' urlToken
                          (s\<lparr> s_loading := True, s_error := None, s_token := Some urlToken \<rparr>))))"
  let ?r = "verifyToken backend urlToken ?s5"
  have "fst ?r" using assms(2) by (simp add: verifyToken_result)
  then have run: "checkExistingAuth backend now s = replaceState (snd ?r)"
    using checkExistingAuth_url_unfold[OF assms(1), of backend now] by (simp add: Let_def)
  show ?thesis
    unfolding run
    using verifyToken_user[of backend urlToken ?s5] assms(2)
    by (simp add: replaceState_fields verifyToken_storage removeItem_fields setItem_fields)
qed

lemma handleSignOut_clears_all:
  "k \<in> {''deeptalk_token'', ''deeptalk_token_timestamp'', ''gmail_token'', ''gmail_token_timestamp''}
     \<Longrightarrow> s_storage (handleSignOut backend s) k = None"
  by (auto simp: handleSignOut_def fetch_def Let_def cleanupStoredTokens_fields)

lemma handleSignOut_v1_clears_all:
  "k \<in> {''deeptalk_token'', ''deeptalk_token_timestamp'', ''gmail_token'', ''gmail_token_timestamp''}
     \<Longrightarrow> s_storage (handleSignOut_v1 backend s) k = None"
  by (auto simp: handleSignOut_v1_def fetch_def Let_def cleanupAllTokens_eq
        cleanupStoredTokens_fields)

lemma signOut_storage:
  "s_storage (signOut backend s)
     = (s_storage s)(''deeptalk_token'' := None, ''deeptalk_token_timestamp'' := None)"
  by (simp add: signOut_def fetch_def removeItem_fields)

lemma handleSignOut_Index_storage:
  "s_storage (handleSignOut_Index s)
     = (s_storage s)(''deeptalk_token'' := None, ''deeptalk_token_timestamp'' := None)"
  by (simp add: handleSignOut_Index_def removeItem_fields)

text \<open>
  A legacy token that a sign-out leaves in the storage is found again by the first draft of
  the resolver, which reads the legacy keys when the current ones are missing: the next
  resolution verifies it and signs the user in.
\<close>

lemma relogin_after_signOut:
  "fetches (s_trace (checkExistingAuth accepting_backend 3000
                       (signOut offline_backend legacy_state)))
     = [Logout, VerifyToken (Some ''legacy.token'')]
   \<and> s_user (checkExistingAuth accepting_backend 3000 (signOut offline_backend legacy_state))
       \<noteq> None"
  by code_simp

section \<open>Claims about the task and calendar adapter\<close>



text \<open>
  C2.  For every display priority the priority that \<open>transformCalendarEventToBackendTask\<close>
  writes into the payload is the one of the table urgent to 1, high to 2, medium to 3,
  low to 5, which is defined on each of the four values.  Backend priority 4, mapped to the
  display and written back, gives 3.  The function returns a payload whenever \<open>toISOString\<close>
  does not throw.
\<close>

theorem C2_backend_priority_mapping:
  assumes "p \<in> set display_priorities" and "e_priority ev = Some p"
  shows "(\<exists>n. spec_backend_priority p = Some n)
       \<and> (\<forall>payload. transformCalendarEventToBackendTask setHours toISOString ev = Inr payload \<longrightarrow>
             payload ''priority'' = map_option JNum (spec_backend_priority p))
       \<and> ((\<forall>d. \<not> isl (toISOString d)) \<longrightarrow>
             (\<exists>payload. transformCalendarEventToBackendTask setHours toISOString ev = Inr payload))
       \<and> (\<forall>task ev' payload.
             t_priority task = 4
             \<and> transformBackendTaskToCalendarEvent newDate format_HHmm task = Inr ev'
             \<and> transformCalendarEventToBackendTask setHours toISOString ev' = Inr payload \<longrightarrow>
             payload ''priority'' = Some (JNum 3))"
proof -
  have tr: "truthy_str (e_priority ev) = Some p"
    using assms display_priority_truthy by simp
  have a: "\<exists>n. spec_backend_priority p = Some n"
    using assms(1) by (auto simp: display_priorities_def spec_backend_priority_def)
  have b: "\<forall>payload. transformCalendarEventToBackendTask setHours toISOString ev = Inr payload \<longrightarrow>
             payload ''priority'' = map_option JNum (spec_backend_priority p)"
  proof (intro allI impI)
    fix payload
    assume r: "transformCalendarEventToBackendTask setHours toISOString ev = Inr payload"
    show "payload ''priority'' = map_option JNum (spec_backend_priority p)"
      using back_priority_urgency(1)[OF r] tr back_priority_table[OF assms(1)] by auto
  qed
  have c: "(\<forall>d. \<not> isl (toISOString d)) \<longrightarrow>
             (\<exists>payload. transformCalendarEventToBackendTask setHours toISOString ev = Inr payload)"
    using back_returns by blast
  have d: "\<forall>task ev' payload.
             t_priority task = 4
             \<and> transformBackendTaskToCalendarEvent newDate format_HHmm task = Inr ev'
             \<and> transformCalendarEventToBackendTask setHours toISOString ev' = Inr payload \<longrightarrow>
             payload ''priority'' = Some (JNum 3)"
  proof (intro allI impI, elim conjE)
    fix task ev' payload
    assume p4: "t_priority task = 4"
       and f: "transformBackendTaskToCalendarEvent newDate format_HHmm task = Inr ev'"
       and r: "transformCalendarEventToBackendTask setHours toISOString ev' = Inr payload"
    have "e_priority ev' = Some ''medium''" using forward_priority_4[OF p4 f] .
    then show "payload ''priority'' = Some (JNum 3)"
      using back_priority_urgency(1)[OF r]
      by (simp add: truthy_str_def priorityMap_backend_def num_or_undefined_def)
  qed
  from a b c d show ?thesis by simp
qed

text \<open>C2 on a concrete event with priority \<open>low\<close>: the payload carries 5.\<close>

theorem C2_backend_priority_mapping_witness:
  "''low'' \<in> set display_priorities \<and> e_priority example_event = Some ''low''
   \<and> (\<exists>payload. transformCalendarEventToBackendTask example_setHours example_toISOString
                    example_event = Inr payload
          \<and> payload ''priority'' = Some (JNum 5))"
proof -
  have h1: "''low'' \<in> set display_priorities" by (simp add: display_priorities_def)
  have h2: "e_priority example_event = Some ''low''" by (simp add: example_event_def)
  have h3: "spec_backend_priority ''low'' = Some 5" by (simp add: spec_backend_priority_def)
  have r: "\<not> isl (transformCalendarEventToBackendTask example_setHours example_toISOString
                   example_event)"
    by code_simp
  then obtain payload where
    p: "transformCalendarEventToBackendTask example_setHours example_toISOString example_event
          = Inr payload"
    by (cases "transformCalendarEventToBackendTask example_setHours example_toISOString
                 example_event") simp_all
  note c = C2_backend_priority_mapping[OF h1 h2, of example_setHours example_toISOString
             example_newDate example_format_HHmm]
  from c p h3 have "payload ''priority'' = Some (JNum 5)" by simp
  with h1 h2 p show ?thesis by blast
qed

text \<open>
  The display status of a returned event, for each of the five backend statuses: the status
  itself, except that \<open>pending\<close> becomes \<open>not_started\<close>.  The copy
  \<open>transformTaskToEvent\<close> agrees.
\<close>

lemma forward_status:
  assumes "s \<in> set backend_statuses" and "t_status task = s"
  shows "transformBackendTaskToCalendarEvent newDate format_HHmm task = Inr ev \<Longrightarrow>
           e_status ev = Some (if s = ''pending'' then ''not_started'' else s)"
    and "e_status (transformTaskToEvent newDate newDateMs now formatTime task)
           = Some (if s = ''pending'' then ''not_started'' else s)"
proof -
  have disp: "or_str (map_of statusMap_display s) ''not_started''
                = (if s = ''pending'' then ''not_started'' else s)"
    using assms(1)
    by (auto simp: backend_statuses_def statusMap_display_def or_str_def truthy_str_def)
  show "e_status ev = Some (if s = ''pending'' then ''not_started'' else s)"
    if r: "transformBackendTaskToCalendarEvent newDate format_HHmm task = Inr ev"
    using forward_fields(2)[OF r] disp assms(2) by simp
  show "e_status (transformTaskToEvent newDate newDateMs now formatTime task)
           = Some (if s = ''pending'' then ''not_started'' else s)"
    using assms(2) by (simp add: transformTaskToEvent_def Let_def)
qed

text \<open>
  No payload that \<open>transformCalendarEventToBackendTask\<close> returns has a \<open>status\<close>,
  whatever the status of the event.
\<close>

lemma back_no_status:
  assumes "transformCalendarEventToBackendTask setHours toISOString ev = Inr payload"
  shows "payload ''status'' = None"
  using back_keeps_literal[OF assms, of "''status''"] by (simp add: task_literal_def)

text \<open>
  The task dialog, which applies the write-back table, restores the backend status of every
  displayed status.
\<close>

lemma dialog_status_restores:
  assumes "s \<in> set backend_statuses"
      and "e_status ev = Some (or_str (map_of statusMap_display s) ''not_started'')"
  shows "dialog_status ev = s"
  using assms
  by (auto simp: backend_statuses_def statusMap_display_def statusMap_backend_def
        dialog_status_def or_str_def truthy_str_def)

text \<open>
  C3.  The claim has the write-back turn \<open>not_started\<close> into \<open>pending\<close> again.  The
  pending task \<open>example_task\<close> is displayed as \<open>example_displayed_event\<close>, with status
  \<open>not_started\<close>; \<open>transformCalendarEventToBackendTask\<close> maps that event to a payload of
  seven properties, none of which is \<open>status\<close>, so the write-back restores nothing.  The
  table that the function declares and does not apply sends \<open>not_started\<close> to
  \<open>pending\<close>, and the task dialog, which applies the same table, writes \<open>pending\<close> for
  this event.
\<close>

theorem C3_status_not_written_back:
  "t_status example_task = ''pending''
   \<and> transformBackendTaskToCalendarEvent example_newDate format_unbound example_task
       = Inr example_displayed_event
   \<and> e_status example_displayed_event = Some ''not_started''
   \<and> transformCalendarEventToBackendTask example_setHours example_toISOString
         example_displayed_event
       = Inr [''name'' \<mapsto> JStr ''Write report'',
              ''description'' \<mapsto> JStr '''',
              ''tags'' \<mapsto> JList [],
              ''location'' \<mapsto> JStr '''',
              ''priority'' \<mapsto> JNum 3,
              ''urgency'' \<mapsto> JNum 3,
              ''deadline'' \<mapsto> JStr ''2024-05-01T09:00:00.000Z'']
   \<and> projr (transformCalendarEventToBackendTask example_setHours example_toISOString
               example_displayed_event) ''status'' = None
   \<and> map_of statusMap_backend ''not_started'' = Some ''pending''
   \<and> dialog_status example_displayed_event = ''pending''"
proof -
  have a: "t_status example_task = ''pending''" by (simp add: example_task_def)
  have b: "transformBackendTaskToCalendarEvent example_newDate format_unbound example_task
             = Inr example_displayed_event"
    by (simp add: transformBackendTaskToCalendarEvent_def example_task_def
          example_displayed_event_def example_newDate_def truthy_str_def or_str_def
          priorityMap_display_def statusMap_display_def)
  have c: "e_status example_displayed_event = Some ''not_started''"
    by (simp add: example_displayed_event_def)
  have d: "transformCalendarEventToBackendTask example_setHours example_toISOString
             example_displayed_event
           = Inr [''name'' \<mapsto> JStr ''Write report'',
                  ''description'' \<mapsto> JStr '''',
                  ''tags'' \<mapsto> JList [],
                  ''location'' \<mapsto> JStr '''',
                  ''priority'' \<mapsto> JNum 3,
                  ''urgency'' \<mapsto> JNum 3,
                  ''deadline'' \<mapsto> JStr ''2024-05-01T09:00:00.000Z'']"
    by (simp add: transformCalendarEventToBackendTask_def set_specific_time_def
          set_deadline_def set_duration_def task_literal_def example_displayed_event_def
          example_toISOString_def or_str_def truthy_str_def priorityMap_backend_def
          num_or_undefined_def)
  have e: "projr (transformCalendarEventToBackendTask example_setHours example_toISOString
                    example_displayed_event) ''status'' = None"
    unfolding d by simp
  have f: "map_of statusMap_backend ''not_started'' = Some ''pending''"
    by (simp add: statusMap_backend_def)
  have g: "dialog_status example_displayed_event = ''pending''"
    by (simp add: dialog_status_def example_displayed_event_def statusMap_backend_def
          or_str_def truthy_str_def)
  from a b c d e f g show ?thesis by simp
qed

text \<open>
  C4.  The claim has the write payload carry the status of the event next to its title, date
  and priority.  On \<open>example_event\<close>, a full \<open>CalendarEvent\<close> with status
  \<open>completed\<close>, \<open>transformCalendarEventToBackendTask\<close> returns a payload with the title
  under \<open>name\<close>, the date under \<open>deadline\<close> (and, with the time, under
  \<open>specific_time\<close>) and the priority as \<open>5\<close>, and without a \<open>status\<close>; the task
  dialog writes \<open>completed\<close> for the same event.
\<close>

theorem C4_payload_has_no_status:
  "is_CalendarEvent example_event
   \<and> e_status example_event = Some ''completed''
   \<and> transformCalendarEventToBackendTask example_setHours example_toISOString example_event
       = Inr [''name'' \<mapsto> JStr ''Write report'',
              ''description'' \<mapsto> JStr '''',
              ''tags'' \<mapsto> JList [],
              ''location'' \<mapsto> JStr '''',
              ''priority'' \<mapsto> JNum 5,
              ''urgency'' \<mapsto> JNum 5,
              ''specific_time'' \<mapsto> JStr ''2024-05-01T14:30:00.000Z'',
              ''deadline'' \<mapsto> JStr ''2024-05-01T09:00:00.000Z'',
              ''duration_minutes'' \<mapsto> JNum 45]
   \<and> \<not> present (projr (transformCalendarEventToBackendTask example_setHours example_toISOString
                          example_event)) ''status''
   \<and> dialog_status example_event = ''completed''"
proof -
  have a: "is_CalendarEvent example_event \<and> e_status example_event = Some ''completed''"
    by (simp add: is_CalendarEvent_def example_event_def)
  have b: "\<not> present (projr (transformCalendarEventToBackendTask example_setHours
                                example_toISOString example_event)) ''status''"
    unfolding example_event_payload by (simp add: present_def)
  have c: "dialog_status example_event = ''completed''"
    by (simp add: dialog_status_def example_event_def statusMap_backend_def
          or_str_def truthy_str_def)
  from a b c example_event_payload show ?thesis by simp
qed

text \<open>
  The display date in the module as it stands.  A task with a specific time makes
  \<open>transformBackendTaskToCalendarEvent\<close> throw; a task without one gets its deadline, else
  its creation time.
\<close>

lemma format_unbound_scheduled:
  assumes "truthy_str (t_specific_time task) = Some st"
  shows "transformBackendTaskToCalendarEvent newDate format_unbound task = Inl ReferenceError"
  using assms by (simp add: transformBackendTaskToCalendarEvent_def format_unbound_def)

lemma format_unbound_unscheduled:
  assumes "truthy_str (t_specific_time task) = None"
  shows "\<exists>ev. transformBackendTaskToCalendarEvent newDate format_unbound task = Inr ev
            \<and> e_date ev = Some (newDate (case truthy_str (t_deadline task) of
                                             Some dl \<Rightarrow> dl
                                           | None \<Rightarrow> t_created_at task))"
  using assms
  by (simp add: transformBackendTaskToCalendarEvent_def split: option.splits)

text \<open>
  The display date of the two copies.  \<open>transformTaskToEvent\<close> follows the rule specific
  time, else deadline, else creation time (else the current time);
  \<open>taskUtils.taskToCalendarEvent\<close> takes the deadline, else the creation time (else the
  current time).
\<close>

lemma transformTaskToEvent_date:
  "e_date (transformTaskToEvent newDate newDateMs now formatTime task)
     = Some (case truthy_str (t_specific_time task) of
               Some st \<Rightarrow> newDate st
             | None \<Rightarrow>
                 (case truthy_str (t_deadline task) of
                    Some dl \<Rightarrow> newDate dl
                  | None \<Rightarrow>
                      if t_created_at task \<noteq> [] then newDate (t_created_at task)
                      else newDateMs now))"
  by (simp add: transformTaskToEvent_def Let_def truthy_str_def split: option.splits)

lemma taskToCalendarEvent_date:
  "e_date (taskToCalendarEvent newDate newDateMs now formatTime task)
     = Some (case truthy_str (t_deadline task) of
               Some dl \<Rightarrow> newDate dl
             | None \<Rightarrow>
                 if t_created_at task \<noteq> [] then newDate (t_created_at task)
                 else newDateMs now)"
  by (simp add: taskToCalendarEvent_def truthy_str_def split: option.splits)

text \<open>
  C5.  The claim has every task with a specific time displayed on that time.
  \<open>example_scheduled_task\<close> is scheduled on 3 May at 10:15 and due on 10 May.  For it
  \<open>transformBackendTaskToCalendarEvent\<close>, in the module as it stands, throws a
  \<open>ReferenceError\<close> and yields no event and no display date, and
  \<open>taskUtils.taskToCalendarEvent\<close> dates the event on the deadline, 10 May.  The copy
  \<open>transformTaskToEvent\<close> dates it on the specific time.
\<close>

theorem C5_specific_time_not_displayed:
  "truthy_str (t_specific_time example_scheduled_task) = Some ''2024-05-03T10:15:00.000Z''
   \<and> transformBackendTaskToCalendarEvent example_newDate format_unbound example_scheduled_task
       = Inl ReferenceError
   \<and> e_date (taskToCalendarEvent example_newDate example_newDateMs 0 example_formatTime
               example_scheduled_task) = Some (example_newDate ''2024-05-10T17:00:00.000Z'')
   \<and> example_newDate ''2024-05-10T17:00:00.000Z'' \<noteq> example_newDate ''2024-05-03T10:15:00.000Z''
   \<and> e_date (transformTaskToEvent example_newDate example_newDateMs 0 example_formatTime
               example_scheduled_task) = Some (example_newDate ''2024-05-03T10:15:00.000Z'')"
proof -
  have a: "truthy_str (t_specific_time example_scheduled_task)
             = Some ''2024-05-03T10:15:00.000Z''"
    by (simp add: example_scheduled_task_def example_task_def truthy_str_def)
  have b: "transformBackendTaskToCalendarEvent example_newDate format_unbound
             example_scheduled_task = Inl ReferenceError"
    using a by (simp add: transformBackendTaskToCalendarEvent_def format_unbound_def)
  have c: "e_date (taskToCalendarEvent example_newDate example_newDateMs 0 example_formatTime
             example_scheduled_task) = Some (example_newDate ''2024-05-10T17:00:00.000Z'')"
    by (simp add: example_scheduled_task_def example_task_def taskToCalendarEvent_def
          truthy_str_def)
  have d: "example_newDate ''2024-05-10T17:00:00.000Z''
             \<noteq> example_newDate ''2024-05-03T10:15:00.000Z''"
    by (simp add: example_newDate_def)
  have e: "e_date (transformTaskToEvent example_newDate example_newDateMs 0 example_formatTime
             example_scheduled_task) = Some (example_newDate ''2024-05-03T10:15:00.000Z'')"
    using a by (simp add: transformTaskToEvent_def Let_def)
  from a b c d e show ?thesis by simp
qed

text \<open>
  C9.  For every calendar event whose priority is unset (missing, or the empty string, which
  the condition treats alike), every payload that \<open>transformCalendarEventToBackendTask\<close>
  returns has priority 3 and urgency 3; the function returns whenever \<open>toISOString\<close> does
  not throw.
\<close>

theorem C9_default_priority:
  assumes "truthy_str (e_priority ev) = None"
  shows "(\<forall>payload. transformCalendarEventToBackendTask setHours toISOString ev = Inr payload \<longrightarrow>
            payload ''priority'' = Some (JNum 3) \<and> payload ''urgency'' = Some (JNum 3))
       \<and> ((\<forall>d. \<not> isl (toISOString d)) \<longrightarrow>
            (\<exists>payload. transformCalendarEventToBackendTask setHours toISOString ev = Inr payload))"
proof -
  have a: "\<forall>payload. transformCalendarEventToBackendTask setHours toISOString ev = Inr payload \<longrightarrow>
            payload ''priority'' = Some (JNum 3) \<and> payload ''urgency'' = Some (JNum 3)"
  proof (intro allI impI)
    fix payload
    assume r: "transformCalendarEventToBackendTask setHours toISOString ev = Inr payload"
    show "payload ''priority'' = Some (JNum 3) \<and> payload ''urgency'' = Some (JNum 3)"
      using back_priority_urgency(1,2)[OF r] assms by simp
  qed
  have b: "(\<forall>d. \<not> isl (toISOString d)) \<longrightarrow>
            (\<exists>payload. transformCalendarEventToBackendTask setHours toISOString ev = Inr payload)"
    using back_returns by blast
  from a b show ?thesis by blast
qed

text \<open>C9 on the concrete event with its priority and time removed.\<close>

theorem C9_default_priority_witness:
  "truthy_str (e_priority (example_event\<lparr> e_priority := None, e_time := None \<rparr>)) = None
   \<and> (\<exists>payload. transformCalendarEventToBackendTask example_setHours example_toISOString
                    (example_event\<lparr> e_priority := None, e_time := None \<rparr>) = Inr payload
          \<and> payload ''priority'' = Some (JNum 3) \<and> payload ''urgency'' = Some (JNum 3))"
proof -
  let ?ev = "example_event\<lparr> e_priority := None, e_time := None \<rparr>"
  have h: "truthy_str (e_priority ?ev) = None" by (simp add: truthy_str_def)
  have "\<not> isl (transformCalendarEventToBackendTask example_setHours example_toISOString ?ev)"
    by (simp add: transformCalendarEventToBackendTask_def set_specific_time_def set_deadline_def
          example_event_def truthy_str_def example_toISOString_def)
  then obtain payload where
    p: "transformCalendarEventToBackendTask example_setHours example_toISOString ?ev = Inr payload"
    by (cases "transformCalendarEventToBackendTask example_setHours example_toISOString ?ev")
       simp_all
  note c = C9_default_priority[OF h, of example_setHours example_toISOString]
  from c p have "payload ''priority'' = Some (JNum 3) \<and> payload ''urgency'' = Some (JNum 3)"
    by blast
  with h p show ?thesis by blast
qed

text \<open>
  C10.  For every calendar event, with or without a priority, every payload that
  \<open>transformCalendarEventToBackendTask\<close> returns has its urgency equal to its priority.
  The function reads the declared properties of the event only: on an event object with
  further properties (an urgency of its own, say) the result is that of the event cut down
  to the interface.
\<close>

theorem C10_urgency_equals_priority:
  "(\<forall>payload. transformCalendarEventToBackendTask setHours toISOString ev = Inr payload \<longrightarrow>
      payload ''urgency'' = payload ''priority'')
   \<and> transformCalendarEventToBackendTask setHours toISOString (CalendarEvent.truncate ev)
       = transformCalendarEventToBackendTask setHours toISOString ev
   \<and> ((\<forall>d. \<not> isl (toISOString d)) \<longrightarrow>
        (\<exists>payload. transformCalendarEventToBackendTask setHours toISOString ev = Inr payload))"
proof -
  have a: "\<forall>payload. transformCalendarEventToBackendTask setHours toISOString ev = Inr payload \<longrightarrow>
      payload ''urgency'' = payload ''priority''"
  proof (intro allI impI)
    fix payload
    assume r: "transformCalendarEventToBackendTask setHours toISOString ev = Inr payload"
    show "payload ''urgency'' = payload ''priority''"
      using back_priority_urgency(1,2)[OF r] by simp
  qed
  have b: "(\<forall>d. \<not> isl (toISOString d)) \<longrightarrow>
            (\<exists>payload. transformCalendarEventToBackendTask setHours toISOString ev = Inr payload)"
    using back_returns by blast
  from a b back_truncate[of setHours toISOString ev] show ?thesis by blast
qed

text \<open>
  C10 on the concrete event extended with urgency 1 and carrying priority \<open>low\<close>: the
  payload's urgency is 5, its priority.
\<close>

theorem C10_urgency_equals_priority_witness:
  "e_urgency example_urgent_event = 1
   \<and> (\<exists>payload. transformCalendarEventToBackendTask example_setHours example_toISOString
                    example_urgent_event = Inr payload
          \<and> payload ''urgency'' = Some (JNum 5) \<and> payload ''priority'' = Some (JNum 5))"
proof -
  have u: "e_urgency example_urgent_event = 1"
    by (simp add: example_urgent_event_def CalendarEvent.extend_def EventWithUrgency.fields_def
          example_event_def)
  note c = C10_urgency_equals_priority[of example_setHours example_toISOString
             example_urgent_event]
  from c example_urgent_event_truncate have
    p: "transformCalendarEventToBackendTask example_setHours example_toISOString
          example_urgent_event
        = transformCalendarEventToBackendTask example_setHours example_toISOString example_event"
    by simp
  show ?thesis
    unfolding p example_event_payload using u by simp
qed

section \<open>Claims about the authentication resolver\<close>

text \<open>
  C6.  For every stored token whose timestamp is at least seven days (604,800,000 ms) old,
  \<open>getValidStoredToken\<close> returns no token and removes the persisted token material (the two
  current keys and the two legacy keys).  When the URL carries no token, a run of the resolver
  then consists of the four removals followed by the session check, and of no other request:
  the expired token is never sent to the verify endpoint.  This holds for \<open>initializeAuth\<close>
  and for the first draft \<open>checkExistingAuth\<close>, whose session check posts an empty body to
  the verify-token endpoint.
\<close>

theorem C6_expired_token_purged:
  assumes "truthy_str (s_storage s ''deeptalk_token'') = Some token"
      and "truthy_str (s_storage s ''deeptalk_token_timestamp'') = Some timestamp"
      and "parseInt timestamp = Some t"
      and "now - t \<ge> 604800000"
  shows "getValidStoredToken now s = (None, cleanupStoredTokens s)
       \<and> s_storage (cleanupStoredTokens s) ''deeptalk_token'' = None
       \<and> s_storage (cleanupStoredTokens s) ''deeptalk_token_timestamp'' = None
       \<and> s_storage (cleanupStoredTokens s) ''gmail_token'' = None
       \<and> s_storage (cleanupStoredTokens s) ''gmail_token_timestamp'' = None
       \<and> (truthy_str (s_url_token s) = None \<longrightarrow>
            (\<exists>rest. s_trace (initializeAuth backend now s)
                      = s_trace s @ [RemoveItem ''deeptalk_token'',
                                     RemoveItem ''deeptalk_token_timestamp'',
                                     RemoveItem ''gmail_token'',
                                     RemoveItem ''gmail_token_timestamp'',
                                     Fetch VerifySession] @ rest
                   \<and> fetches rest = [])
          \<and> s_storage (initializeAuth backend now s) ''deeptalk_token'' = None
          \<and> s_storage (initializeAuth backend now s) ''deeptalk_token_timestamp'' = None)
       \<and> (truthy_str (s_url_token s) = None \<longrightarrow>
            (\<exists>rest. s_trace (checkExistingAuth backend now s)
                      = s_trace s @ [RemoveItem ''deeptalk_token'',
                                     RemoveItem ''deeptalk_token_timestamp'',
                                     RemoveItem ''gmail_token'',
                                     RemoveItem ''gmail_token_timestamp'',
                                     Fetch (VerifyToken None)] @ rest
                   \<and> fetches rest = []))"
proof -
  have a: "getValidStoredToken now s = (None, cleanupStoredTokens s)"
    using getValidStoredToken_expired[OF assms] .
  have b: "s_storage (cleanupStoredTokens s) ''deeptalk_token'' = None"
          "s_storage (cleanupStoredTokens s) ''deeptalk_token_timestamp'' = None"
          "s_storage (cleanupStoredTokens s) ''gmail_token'' = None"
          "s_storage (cleanupStoredTokens s) ''gmail_token_timestamp'' = None"
    by (simp_all add: cleanupStoredTokens_fields)
  have c: "truthy_str (s_url_token s) = None \<longrightarrow>
            (\<exists>rest. s_trace (initializeAuth backend now s)
                      = s_trace s @ [RemoveItem ''deeptalk_token'',
                                     RemoveItem ''deeptalk_token_timestamp'',
                                     RemoveItem ''gmail_token'',
                                     RemoveItem ''gmail_token_timestamp'',
                                     Fetch VerifySession] @ rest
                   \<and> fetches rest = [])
          \<and> s_storage (initializeAuth backend now s) ''deeptalk_token'' = None
          \<and> s_storage (initializeAuth backend now s) ''deeptalk_token_timestamp'' = None"
  proof
    assume u: "truthy_str (s_url_token s) = None"
    let ?c = "cleanupStoredTokens (s\<lparr> s_loading := True, s_error := None \<rparr>)"
    have run: "initializeAuth backend now s = session_step backend ?c"
      using initializeAuth_expired[OF u assms] .
    obtain rest where
      r: "s_trace (session_step backend ?c) = s_trace ?c @ [Fetch VerifySession] @ rest"
         "fetches rest = []"
      using session_step_effects[of backend ?c] by blast
    have tr: "s_trace (initializeAuth backend now s)
                = s_trace s @ [RemoveItem ''deeptalk_token'',
                               RemoveItem ''deeptalk_token_timestamp'',
                               RemoveItem ''gmail_token'',
                               RemoveItem ''gmail_token_timestamp'',
                               Fetch VerifySession] @ rest"
      unfolding run r(1) by (simp add: cleanupStoredTokens_fields)
    have st: "s_storage (initializeAuth backend now s) ''deeptalk_token'' = None"
             "s_storage (initializeAuth backend now s) ''deeptalk_token_timestamp'' = None"
      unfolding run by (simp_all add: session_step_storage cleanupStoredTokens_fields)
    from tr r(2) st show "(\<exists>rest. s_trace (initializeAuth backend now s)
                      = s_trace s @ [RemoveItem ''deeptalk_token'',
                                     RemoveItem ''deeptalk_token_timestamp'',
                                     RemoveItem ''gmail_token'',
                                     RemoveItem ''gmail_token_timestamp'',
                                     Fetch VerifySession] @ rest
                   \<and> fetches rest = [])
          \<and> s_storage (initializeAuth backend now s) ''deeptalk_token'' = None
          \<and> s_storage (initializeAuth backend now s) ''deeptalk_token_timestamp'' = None"
      by blast
  qed
  have d: "truthy_str (s_url_token s) = None \<longrightarrow>
            (\<exists>rest. s_trace (checkExistingAuth backend now s)
                      = s_trace s @ [RemoveItem ''deeptalk_token'',
                                     RemoveItem ''deeptalk_token_timestamp'',
                                     RemoveItem ''gmail_token'',
                                     RemoveItem ''gmail_token_timestamp'',
                                     Fetch (VerifyToken None)] @ rest
                   \<and> fetches rest = [])"
    using checkExistingAuth_expired_trace[OF _ assms] by blast
  from a b c d show ?thesis by blast
qed

text \<open>
  C6 on a concrete state: the stored timestamp is \<open>1000\<close> and the clock reads eight days
  later; the backend cannot be reached.
\<close>

theorem C6_expired_token_purged_witness:
  "truthy_str (s_storage expired_state ''deeptalk_token'') = Some ''abc.def.ghi''
   \<and> truthy_str (s_storage expired_state ''deeptalk_token_timestamp'') = Some ''1000''
   \<and> parseInt ''1000'' = Some 1000
   \<and> (1000 + 8 * 24 * 60 * 60 * 1000) - 1000 \<ge> (604800000::int)
   \<and> getValidStoredToken (1000 + 8 * 24 * 60 * 60 * 1000) expired_state
       = (None, cleanupStoredTokens expired_state)
   \<and> fetches (s_trace (initializeAuth offline_backend (1000 + 8 * 24 * 60 * 60 * 1000)
                          expired_state)) = [VerifySession]
   \<and> s_storage (initializeAuth offline_backend (1000 + 8 * 24 * 60 * 60 * 1000) expired_state)
        ''deeptalk_token'' = None"
proof -
  have h1: "truthy_str (s_storage expired_state ''deeptalk_token'') = Some ''abc.def.ghi''"
    by (simp add: expired_state_def truthy_str_def)
  have h2: "truthy_str (s_storage expired_state ''deeptalk_token_timestamp'') = Some ''1000''"
    by (simp add: expired_state_def truthy_str_def)
  have h3: "parseInt ''1000'' = Some 1000" by code_simp
  have h4: "(1000 + 8 * 24 * 60 * 60 * 1000) - 1000 \<ge> (604800000::int)" by simp
  have h5: "truthy_str (s_url_token expired_state) = None"
    by (simp add: expired_state_def truthy_str_def)
  have h6: "s_trace expired_state = []" by (simp add: expired_state_def)
  note c = C6_expired_token_purged[OF h1 h2 h3 h4, of offline_backend]
  from c h5 obtain rest where
    r: "s_trace (initializeAuth offline_backend (1000 + 8 * 24 * 60 * 60 * 1000) expired_state)
          = s_trace expired_state @ [RemoveItem ''deeptalk_token'',
                                     RemoveItem ''deeptalk_token_timestamp'',
                                     RemoveItem ''gmail_token'',
                                     RemoveItem ''gmail_token_timestamp'',
                                     Fetch VerifySession] @ rest"
       "fetches rest = []"
    by blast
  have f: "fetches (s_trace (initializeAuth offline_backend (1000 + 8 * 24 * 60 * 60 * 1000)
                          expired_state)) = [VerifySession]"
    unfolding r(1) h6 using r(2) by (simp add: fetches_append)
  from c h5 have st: "s_storage (initializeAuth offline_backend (1000 + 8 * 24 * 60 * 60 * 1000)
      expired_state) ''deeptalk_token'' = None" by blast
  from c have g: "getValidStoredToken (1000 + 8 * 24 * 60 * 60 * 1000) expired_state
       = (None, cleanupStoredTokens expired_state)" by blast
  from h1 h2 h3 h4 g f st show ?thesis by blast
qed

text \<open>
  C7.  When the URL carries a token, a run of \<open>initializeAuth\<close> starts by persisting that
  token and the current time under the two current keys and then verifies it; this is the
  only request of the run, whatever the storage held before and whatever session exists.
  When the verification succeeds the user is signed in by token, and the storage holds the
  URL token and its timestamp, so that for the next seven days \<open>getValidStoredToken\<close> returns
  the URL token.  The first draft \<open>checkExistingAuth\<close> does the same, and goes
  on to its other checks (which then find the storage purged, so that only the session check
  sends a request) only when the verification of the URL token did not succeed.
\<close>

theorem C7_url_token_first:
  assumes "truthy_str (s_url_token s) = Some urlToken"
  shows "(\<exists>rest. s_trace (initializeAuth backend now s)
                  = s_trace s @ [SetItem ''deeptalk_token'' urlToken,
                                 SetItem ''deeptalk_token_timestamp'' (number_toString now),
                                 ReplaceState,
                                 Fetch (VerifyToken (Some urlToken))] @ rest
               \<and> fetches rest = [])
       \<and> (accepted (backend (VerifyToken (Some urlToken))) \<longrightarrow>
            (\<exists>u. s_user (initializeAuth backend now s) = Some u \<and> u_loginMethod u = ''token'')
          \<and> s_authMethod (initializeAuth backend now s) = Some ''token''
          \<and> s_storage (initializeAuth backend now s) ''deeptalk_token'' = Some urlToken
          \<and> s_storage (initializeAuth backend now s) ''deeptalk_token_timestamp''
               = Some (number_toString now))
       \<and> (accepted (backend (VerifyToken (Some urlToken))) \<and> 0 \<le> now
            \<and> later - now < 604800000 \<longrightarrow>
            getValidStoredToken later (initializeAuth backend now s)
              = (Some urlToken, initializeAuth backend now s))
       \<and> (\<exists>rest. s_trace (checkExistingAuth backend now s)
                  = s_trace s @ [SetItem ''deeptalk_token'' urlToken,
                                 SetItem ''deeptalk_token_timestamp'' (number_toString now),
                                 RemoveItem ''gmail_token'',
                                 RemoveItem ''gmail_token_timestamp'',
                                 Fetch (VerifyToken (Some urlToken))] @ rest
               \<and> fetches rest
                   = (if accepted (backend (VerifyToken (Some urlToken))) then []
                      else [VerifyToken None]))
       \<and> (accepted (backend (VerifyToken (Some urlToken))) \<longrightarrow>
            (\<exists>u. s_user (checkExistingAuth backend now s) = Some u)
          \<and> s_storage (checkExistingAuth backend now s) ''deeptalk_token'' = Some urlToken
          \<and> s_storage (checkExistingAuth backend now s) ''deeptalk_token_timestamp''
               = Some (number_toString now))"
proof -
  let ?s = "s\<lparr> s_loading := True, s_error := None \<rparr>"
  have run: "initializeAuth backend now s = processNewToken backend now urlToken ?s"
    using initializeAuth_url[OF assms] .
  have a: "\<exists>rest. s_trace (initializeAuth backend now s)
                  = s_trace s @ [SetItem ''deeptalk_token'' urlToken,
                                 SetItem ''deeptalk_token_timestamp'' (number_toString now),
                                 ReplaceState,
                                 Fetch (VerifyToken (Some urlToken))] @ rest
               \<and> fetches rest = []"
    unfolding run using processNewToken_effects[of backend now urlToken ?s] by simp
  have b: "accepted (backend (VerifyToken (Some urlToken))) \<longrightarrow>
            (\<exists>u. s_user (initializeAuth backend now s) = Some u \<and> u_loginMethod u = ''token'')
          \<and> s_authMethod (initializeAuth backend now s) = Some ''token''
          \<and> s_storage (initializeAuth backend now s) ''deeptalk_token'' = Some urlToken
          \<and> s_storage (initializeAuth backend now s) ''deeptalk_token_timestamp''
               = Some (number_toString now)"
    unfolding run using processNewToken_accepted[of backend urlToken now ?s] by blast
  have c: "\<exists>rest. s_trace (checkExistingAuth backend now s)
                  = s_trace s @ [SetItem ''deeptalk_token'' urlToken,
                                 SetItem ''deeptalk_token_timestamp'' (number_toString now),
                                 RemoveItem ''gmail_token'',
                                 RemoveItem ''gmail_token_timestamp'',
                                 Fetch (VerifyToken (Some urlToken))] @ rest
               \<and> fetches rest
                   = (if accepted (backend (VerifyToken (Some urlToken))) then []
                      else [VerifyToken None])"
    using checkExistingAuth_url_effects[OF assms] .
  have d: "accepted (backend (VerifyToken (Some urlToken))) \<longrightarrow>
            (\<exists>u. s_user (checkExistingAuth backend now s) = Some u)
          \<and> s_storage (checkExistingAuth backend now s) ''deeptalk_token'' = Some urlToken
          \<and> s_storage (checkExistingAuth backend now s) ''deeptalk_token_timestamp''
               = Some (number_toString now)"
    using checkExistingAuth_url_accepted[OF assms, of backend now] by blast
  have e: "accepted (backend (VerifyToken (Some urlToken))) \<and> 0 \<le> now
            \<and> later - now < 604800000 \<longrightarrow>
            getValidStoredToken later (initializeAuth backend now s)
              = (Some urlToken, initializeAuth backend now s)"
  proof
    assume h: "accepted (backend (VerifyToken (Some urlToken))) \<and> 0 \<le> now
                 \<and> later - now < 604800000"
    have t: "truthy_str (Some urlToken) = Some urlToken"
      using truthy_str_Some[OF assms] .
    from b h have st:
      "s_storage (initializeAuth backend now s) ''deeptalk_token'' = Some urlToken"
      "s_storage (initializeAuth backend now s) ''deeptalk_token_timestamp''
         = Some (number_toString now)"
      by simp_all
    from h show "getValidStoredToken later (initializeAuth backend now s)
              = (Some urlToken, initializeAuth backend now s)"
      using getValidStoredToken_fresh[OF t st] by simp
  qed
  from a b c d e show ?thesis by blast
qed

text \<open>
  C7 on a concrete state: a token in the URL, an older token in the storage, and a backend
  that accepts every request.
\<close>

theorem C7_url_token_first_witness:
  "truthy_str (s_url_token url_token_state) = Some ''new.url.token''
   \<and> s_storage url_token_state ''deeptalk_token'' = Some ''old.stored.token''
   \<and> accepted (accepting_backend (VerifyToken (Some ''new.url.token'')))
   \<and> fetches (s_trace (initializeAuth accepting_backend 5000 url_token_state))
        = [VerifyToken (Some ''new.url.token'')]
   \<and> s_storage (initializeAuth accepting_backend 5000 url_token_state) ''deeptalk_token''
        = Some ''new.url.token''
   \<and> s_storage (initializeAuth accepting_backend 5000 url_token_state)
        ''deeptalk_token_timestamp'' = Some ''5000''
   \<and> s_authMethod (initializeAuth accepting_backend 5000 url_token_state) = Some ''token''"
proof -
  have h1: "truthy_str (s_url_token url_token_state) = Some ''new.url.token''"
    by (simp add: url_token_state_def truthy_str_def)
  have h2: "s_storage url_token_state ''deeptalk_token'' = Some ''old.stored.token''"
    by (simp add: url_token_state_def)
  have h3: "accepted (accepting_backend (VerifyToken (Some ''new.url.token'')))"
    by (simp add: accepted_def accepting_backend_def)
  have h4: "s_trace url_token_state = []" by (simp add: url_token_state_def)
  have h5: "number_toString 5000 = ''5000''" by code_simp
  note c = C7_url_token_first[OF h1, of accepting_backend 5000]
  from c obtain rest where
    r: "s_trace (initializeAuth accepting_backend 5000 url_token_state)
          = s_trace url_token_state @ [SetItem ''deeptalk_token'' ''new.url.token'',
                                 SetItem ''deeptalk_token_timestamp'' (number_toString 5000),
                                 ReplaceState,
                                 Fetch (VerifyToken (Some ''new.url.token''))] @ rest"
       "fetches rest = []"
    by blast
  have f: "fetches (s_trace (initializeAuth accepting_backend 5000 url_token_state))
        = [VerifyToken (Some ''new.url.token'')]"
    unfolding r(1) h4 using r(2) by (simp add: fetches_append)
  from c h3 have st:
    "s_storage (initializeAuth accepting_backend 5000 url_token_state) ''deeptalk_token''
        = Some ''new.url.token''"
    "s_storage (initializeAuth accepting_backend 5000 url_token_state)
        ''deeptalk_token_timestamp'' = Some (number_toString 5000)"
    "s_authMethod (initializeAuth accepting_backend 5000 url_token_state) = Some ''token''"
    by blast+
  from h1 h2 h3 f st show ?thesis unfolding h5 by blast
qed

text \<open>
  C8.  The claim is that every sign-out removes the two current keys and the two legacy keys.
  \<open>handleSignOut\<close> of the authentication component does so, also when the logout request
  fails.  \<open>authAPI.signOut\<close> and the page's own \<open>handleSignOut\<close> remove the current keys
  only: on a storage that holds a legacy token, that token and its timestamp are still there
  after the sign-out, and the first draft of the resolver, run next, verifies the legacy token
  and signs the user in again.
\<close>

theorem C8_signOut_keeps_legacy_keys:
  "s_storage (signOut offline_backend legacy_state) ''deeptalk_token'' = None
   \<and> s_storage (signOut offline_backend legacy_state) ''deeptalk_token_timestamp'' = None
   \<and> s_storage (signOut offline_backend legacy_state) ''gmail_token'' = Some ''legacy.token''
   \<and> s_storage (signOut offline_backend legacy_state) ''gmail_token_timestamp'' = Some ''1000''
   \<and> s_storage (handleSignOut_Index legacy_state) ''gmail_token'' = Some ''legacy.token''
   \<and> s_storage (handleSignOut offline_backend legacy_state) ''gmail_token'' = None
   \<and> s_storage (handleSignOut offline_backend legacy_state) ''gmail_token_timestamp'' = None
   \<and> s_storage (handleSignOut offline_backend legacy_state) ''deeptalk_token'' = None
   \<and> s_storage (handleSignOut offline_backend legacy_state) ''deeptalk_token_timestamp'' = None
   \<and> fetches (s_trace (checkExistingAuth accepting_backend 3000
                          (signOut offline_backend legacy_state)))
        = [Logout, VerifyToken (Some ''legacy.token'')]
   \<and> s_user (checkExistingAuth accepting_backend 3000 (signOut offline_backend legacy_state))
        \<noteq> None"
  using relogin_after_signOut
  by (simp add: signOut_storage handleSignOut_Index_storage handleSignOut_clears_all
        legacy_state_def)

end
